theory Spec2Isabelle
  imports Complex_Main "HOL-Library.AList"
begin

section \<open>Numeric values\<close>

text \<open>
  Scalars of the trainer are floating-point numbers. They are modelled as exact reals
  together with one extra value \<open>NaN\<close>, the result of a division of zero by zero and of
  every operation on a \<open>NaN\<close>. Rounding and overflow are not modelled: the exponential of
  a large log-ratio is a real number here, where a float overflows to infinity, and the
  threshold of the KL gate is the rational \<open>17 / 10 ^ 7\<close>. The only divisors of the trainer
  that can be zero are mask sums, whose numerators are then sums of products with a zero
  mask.
\<close>

datatype fl = Fin real | NaN

fun fadd :: "fl \<Rightarrow> fl \<Rightarrow> fl" where
  "fadd (Fin x) (Fin y) = Fin (x + y)"
| "fadd _ _ = NaN"

fun fsub :: "fl \<Rightarrow> fl \<Rightarrow> fl" where
  "fsub (Fin x) (Fin y) = Fin (x - y)"
| "fsub _ _ = NaN"

fun fmul :: "fl \<Rightarrow> fl \<Rightarrow> fl" where
  "fmul (Fin x) (Fin y) = Fin (x * y)"
| "fmul _ _ = NaN"

fun fdiv :: "fl \<Rightarrow> fl \<Rightarrow> fl" where
  "fdiv (Fin x) (Fin y) = (if y = 0 then NaN else Fin (x / y))"
| "fdiv _ _ = NaN"

fun fneg :: "fl \<Rightarrow> fl" where
  "fneg (Fin x) = Fin (- x)"
| "fneg NaN = NaN"

fun fexp :: "fl \<Rightarrow> fl" where
  "fexp (Fin x) = Fin (exp x)"
| "fexp NaN = NaN"

fun fmax :: "fl \<Rightarrow> fl \<Rightarrow> fl" where
  "fmax (Fin x) (Fin y) = Fin (max x y)"
| "fmax _ _ = NaN"

text \<open>\<^verbatim>\<open>torch.clamp(x, lo, hi)\<close> is \<open>min (max x lo) hi\<close>.\<close>

fun fclamp :: "fl \<Rightarrow> real \<Rightarrow> real \<Rightarrow> fl" where
  "fclamp (Fin x) lo hi = Fin (min (max x lo) hi)"
| "fclamp NaN lo hi = NaN"

text \<open>A comparison with \<open>NaN\<close> is false.\<close>

fun fgt :: "fl \<Rightarrow> fl \<Rightarrow> bool" where
  "fgt (Fin x) (Fin y) = (x > y)"
| "fgt _ _ = False"

fun is_fin :: "fl \<Rightarrow> bool" where
  "is_fin (Fin x) = True"
| "is_fin NaN = False"

definition fsum :: "fl list \<Rightarrow> fl" where
  "fsum xs = foldr fadd xs (Fin 0)"

section \<open>Tensors\<close>

text \<open>
  The arrays of a minibatch have a leading batch dimension, an agent dimension and a
  token dimension: a tensor is a list of batch rows, each a list over the agents of a
  list over the tokens. The elementwise operations are taken on tensors of one shape.
\<close>

type_synonym 'a tensor = "'a list list list"

definition tmap :: "('a \<Rightarrow> 'b) \<Rightarrow> 'a tensor \<Rightarrow> 'b tensor" where
  "tmap f = map (map (map f))"

definition tmap2 :: "('a \<Rightarrow> 'b \<Rightarrow> 'c) \<Rightarrow> 'a tensor \<Rightarrow> 'b tensor \<Rightarrow> 'c tensor" where
  "tmap2 f A B = map2 (map2 (map2 f)) A B"

definition flat :: "'a tensor \<Rightarrow> 'a list" where
  "flat A = concat (concat A)"

text \<open>\<^verbatim>\<open>t.sum()\<close> of a float tensor and of an integer tensor.\<close>

definition tsum :: "fl tensor \<Rightarrow> fl" where
  "tsum A = fsum (flat A)"

definition isum :: "int tensor \<Rightarrow> int" where
  "isum M = sum_list (flat M)"

text \<open>\<^verbatim>\<open>t * token_mask\<close>: a float tensor times the integer mask.\<close>

definition tmask :: "fl tensor \<Rightarrow> int tensor \<Rightarrow> fl tensor" where
  "tmask A M = tmap2 (\<lambda>v m. fmul v (Fin (of_int m))) A M"

text \<open>\<^verbatim>\<open>(t * token_mask).sum() / token_mask.sum()\<close>\<close>

definition masked_mean :: "fl tensor \<Rightarrow> int tensor \<Rightarrow> fl" where
  "masked_mean A M = fdiv (tsum (tmask A M)) (Fin (of_int (isum M)))"

text \<open>\<^verbatim>\<open>t[start:stop]\<close> on the batch dimension, for \<open>start \<le> stop\<close>.\<close>

definition slice :: "nat \<Rightarrow> nat \<Rightarrow> 'a list \<Rightarrow> 'a list" where
  "slice start stop xs = take (stop - start) (drop start xs)"

text \<open>\<^verbatim>\<open>t[:, a: a + 1]\<close> on the agent dimension.\<close>

definition agent_slice :: "nat \<Rightarrow> 'a tensor \<Rightarrow> 'a tensor" where
  "agent_slice a A = map (slice a (a + 1)) A"

section \<open>Configuration\<close>

record config =
  num_agent :: nat
  warmup_steps :: int
  agent_iteration_interval :: int
  clip_param :: real
  ppo_epoch :: int
  num_mini_batch :: int
  value_loss_coef :: real
  max_grad_norm :: real
  huber_delta :: real
  entropy_coef :: real
  use_max_grad_norm :: bool
  use_clipped_value_loss :: bool
  use_huber_loss :: bool
  gradient_cp_steps :: int
  pad_token :: int

section \<open>Loss computation\<close>

definition cal_token_mask :: "config \<Rightarrow> int tensor \<Rightarrow> int tensor" where
  "cal_token_mask cfg action_tokens_batch =
     tmap (\<lambda>t. if t \<noteq> pad_token cfg then 1 else 0) action_tokens_batch"

definition cal_policy_loss ::
  "config \<Rightarrow> fl tensor \<Rightarrow> fl tensor \<Rightarrow> fl tensor \<Rightarrow> fl tensor \<Rightarrow> int tensor \<Rightarrow> fl \<times> fl \<times> fl" where
  "cal_policy_loss cfg log_prob_infer log_prob_batch advantages_batch entropy token_mask =
     (let log_ratio = tmap2 fsub log_prob_infer log_prob_batch;
          imp_weights = tmap fexp log_ratio;
          approx_kl = tmap2 fsub (tmap (\<lambda>w. fsub w (Fin 1)) imp_weights) log_ratio;
          surr1 = tmap2 fmul
                    (tmap (\<lambda>w. fneg (fclamp w (1 - clip_param cfg) (1 + clip_param cfg))) imp_weights)
                    advantages_batch;
          surr2 = tmap2 fmul (tmap fneg imp_weights) advantages_batch;
          surr = tmap2 fmax surr1 surr2;
          policy_loss = tmap2 fsub surr (tmap (\<lambda>e. fmul (Fin (entropy_coef cfg)) e) entropy);
          policy_loss = masked_mean policy_loss token_mask;
          approx_kl = masked_mean approx_kl token_mask;
          entropy_value = masked_mean entropy token_mask
      in (policy_loss, approx_kl, entropy_value))"

text \<open>
  \<^verbatim>\<open>huber_loss\<close> and \<^verbatim>\<open>mse_loss\<close> come from \<^verbatim>\<open>marft.utils.util\<close>, which is not
  part of the sources at hand; they are elementwise and are taken as parameters, each
  given by what it does on one entry.
\<close>

definition cal_value_loss ::
  "(fl \<Rightarrow> real \<Rightarrow> fl) \<Rightarrow> (fl \<Rightarrow> fl) \<Rightarrow> config \<Rightarrow>
   fl tensor \<Rightarrow> fl tensor \<Rightarrow> fl tensor \<Rightarrow> int tensor \<Rightarrow> fl" where
  "cal_value_loss huber_loss mse_loss cfg values_infer value_preds_batch return_batch token_mask =
     (let value_pred_clipped =
            tmap2 fadd value_preds_batch
              (tmap (\<lambda>d. fclamp d (- clip_param cfg) (clip_param cfg))
                 (tmap2 fsub values_infer value_preds_batch));
          error_clipped = tmap2 fsub return_batch value_pred_clipped;
          error_unclipped = tmap2 fsub return_batch values_infer;
          value_loss_clipped =
            (if use_huber_loss cfg then tmap (\<lambda>e. huber_loss e (huber_delta cfg)) error_clipped
             else tmap mse_loss error_clipped);
          value_loss_unclipped =
            (if use_huber_loss cfg then tmap (\<lambda>e. huber_loss e (huber_delta cfg)) error_unclipped
             else tmap mse_loss error_unclipped);
          value_loss = tmap2 fmax value_loss_clipped value_loss_unclipped;
          value_loss = masked_mean value_loss token_mask
      in fmul value_loss (Fin (value_loss_coef cfg)))"

section \<open>Trainer state and external operations\<close>

datatype py_error = ZeroDivisionError | IndexError | KeyError | UnboundLocalError

text \<open>
  A trainable object (an agent, the critic) has parameters and the gradients accumulated
  on them by \<^verbatim>\<open>backward()\<close>; their types are left open. An agent has a role as well.
\<close>

record ('w, 'g) net =
  weights :: 'w
  grad :: 'g

record ('w, 'g) agent = "('w, 'g) net" +
  role :: string

text \<open>
  A policy optimizer holds references to the parameters of one agent: \<open>owner\<close> is the
  position of that agent in \<^verbatim>\<open>mas.agents\<close>, \<open>opt_state\<close> the optimizer's internal state.
\<close>

record 'o optimizer =
  owner :: nat
  opt_state :: 'o

record ('w, 'g, 'o) trainer =
  agents :: "('w, 'g) agent list"
  critic :: "('w, 'g) net"
  policy_optimizer :: "(string \<times> 'o optimizer) list"
  critic_optimizer :: 'o

text \<open>
  The operations the trainer calls and does not define: the two forward passes of the
  multi-agent system, the tensor library's \<^verbatim>\<open>log_softmax\<close>, \<^verbatim>\<open>gather\<close> and categorical
  entropy, the two elementwise losses, automatic differentiation (\<open>value_backward\<close> and
  \<open>policy_backward\<close> give the gradient after \<^verbatim>\<open>backward()\<close> on a chunk's weighted loss,
  from the gradient before), \<^verbatim>\<open>zero_grad\<close>, the two gradient norms and an optimizer step.
  \<open>get_token_values\<close> stands for \<^verbatim>\<open>get_token_values(obs, tokens, train=True).squeeze(-1)\<close>.
\<close>

type_synonym 'obs value_chunk = "'obs list \<times> int tensor \<times> fl tensor \<times> fl tensor \<times> int tensor"
type_synonym 'obs policy_chunk = "'obs list \<times> int tensor \<times> fl tensor \<times> fl tensor \<times> int tensor"

record ('obs, 'w, 'g, 'o) backend =
  get_token_values :: "'w \<Rightarrow> 'obs list \<Rightarrow> int tensor \<Rightarrow> fl tensor"
  get_token_logits :: "'w list \<Rightarrow> 'obs list \<Rightarrow> int tensor \<Rightarrow> nat option \<Rightarrow> fl list tensor"
  log_softmax :: "fl list tensor \<Rightarrow> fl list tensor"
  gather :: "fl list tensor \<Rightarrow> int tensor \<Rightarrow> fl tensor"
  entropy_of :: "fl list tensor \<Rightarrow> fl tensor"
  huber_loss :: "fl \<Rightarrow> real \<Rightarrow> fl"
  mse_loss :: "fl \<Rightarrow> fl"
  value_backward :: "'w \<Rightarrow> 'obs value_chunk \<Rightarrow> fl \<Rightarrow> 'g \<Rightarrow> 'g"
  policy_backward :: "'w list \<Rightarrow> nat option \<Rightarrow> 'obs policy_chunk \<Rightarrow> fl \<Rightarrow> nat \<Rightarrow> 'g \<Rightarrow> 'g"
  zero_grad :: "'g \<Rightarrow> 'g"
  clip_grad_norm :: "'g \<Rightarrow> real \<Rightarrow> 'g \<times> fl"
  get_gard_norm :: "'g \<Rightarrow> fl"
  opt_step :: "'o \<Rightarrow> 'w \<Rightarrow> 'g \<Rightarrow> 'o \<times> 'w"

text \<open>
  The registry built by \<^verbatim>\<open>__init__\<close>: one optimizer per role, in the order of the agents;
  a later agent with the role of an earlier one replaces that one's optimizer.
\<close>

definition init_policy_optimizer ::
  "'o \<Rightarrow> ('w, 'g) agent list \<Rightarrow> (string \<times> 'o optimizer) list" where
  "init_policy_optimizer fresh ags =
     fold (\<lambda>i d. AList.update (role (ags ! i)) \<lparr>owner = i, opt_state = fresh\<rparr> d)
       [0 ..< length ags] []"

record 'obs sample =
  observations :: "'obs list"
  actions :: "'obs list"
  rollout_observations :: "'obs list"
  log_probs :: "fl tensor"
  value_preds :: "fl tensor"
  returns :: "fl tensor"
  advantages :: "fl tensor"
  action_tokens :: "int tensor"

section \<open>The update protocol\<close>

subsection \<open>Agent selection\<close>

text \<open>
  Lines 87 to 90 of \<^verbatim>\<open>ppo_update\<close>. Python's \<^verbatim>\<open>//\<close> and \<^verbatim>\<open>%\<close> round to the floor, as
  \<open>div\<close> and \<open>mod\<close> on \<open>int\<close> do; \<^verbatim>\<open>%\<close> by zero raises.
\<close>

definition select_agent :: "config \<Rightarrow> int \<Rightarrow> py_error + nat option" where
  "select_agent cfg global_steps =
     (if agent_iteration_interval cfg > 0 then
        (let time_slice = global_steps div agent_iteration_interval cfg
         in if num_agent cfg = 0 then Inl ZeroDivisionError
            else Inr (Some (nat ((time_slice + 1) mod int (num_agent cfg)))))
      else Inr None)"

subsection \<open>Advantage normalization\<close>

text \<open>
  \<^verbatim>\<open>np.nanmean\<close> and \<^verbatim>\<open>np.nanstd\<close> reduce over the entries that are not \<open>NaN\<close>; over none
  they give \<open>NaN\<close> (with a warning, not an exception). The standard deviation is the
  population one.
\<close>

definition finite_entries :: "fl list \<Rightarrow> real list" where
  "finite_entries xs = concat (map (\<lambda>x. case x of Fin r \<Rightarrow> [r] | NaN \<Rightarrow> []) xs)"

definition nanmean :: "fl list \<Rightarrow> fl" where
  "nanmean xs =
     (let ys = finite_entries xs
      in if ys = [] then NaN else Fin (sum_list ys / real (length ys)))"

definition nanstd :: "fl list \<Rightarrow> fl" where
  "nanstd xs =
     (let ys = finite_entries xs
      in if ys = [] then NaN
         else (let avg = sum_list ys / real (length ys)
               in Fin (sqrt (sum_list (map (\<lambda>y. (y - avg)\<^sup>2) ys) / real (length ys)))))"

definition normalize_advantages :: "fl tensor \<Rightarrow> fl tensor" where
  "normalize_advantages advs =
     (let advantages_copy = tmap (\<lambda>a. if a = Fin 0 then NaN else a) advs;
          mean_advantages = nanmean (flat advantages_copy);
          std_advantages = nanstd (flat advantages_copy)
      in tmap (\<lambda>a. fdiv (fsub a mean_advantages) (fadd std_advantages (Fin (1 / 10 ^ 8)))) advs)"

subsection \<open>Chunks\<close>

text \<open>
  Lines 105 to 109: \<^verbatim>\<open>int(batch_size // gradient_cp_steps)\<close>, with the zero chunk size
  replaced by one. \<open>chunk_starts\<close> is \<^verbatim>\<open>range(0, batch_size, cp_batch_size)\<close>, which is
  empty for a negative step.
\<close>

definition cp_batch_size_of :: "config \<Rightarrow> nat \<Rightarrow> py_error + int" where
  "cp_batch_size_of cfg batch_size =
     (if gradient_cp_steps cfg = 0 then Inl ZeroDivisionError
      else (let cp_batch_size = int batch_size div gradient_cp_steps cfg
            in Inr (if cp_batch_size = 0 then 1 else cp_batch_size)))"

definition chunk_starts :: "nat \<Rightarrow> int \<Rightarrow> nat list" where
  "chunk_starts batch_size cp_batch_size =
     (if cp_batch_size \<le> 0 then []
      else map (\<lambda>k. k * nat cp_batch_size)
             [0 ..< (batch_size + nat cp_batch_size - 1) div nat cp_batch_size])"

definition chunk_stop :: "nat \<Rightarrow> int \<Rightarrow> nat \<Rightarrow> nat" where
  "chunk_stop batch_size cp_batch_size start =
     (let stop = start + nat cp_batch_size
      in if stop > batch_size then batch_size else stop)"

definition cp_weight_of :: "nat \<Rightarrow> int \<Rightarrow> nat \<Rightarrow> fl" where
  "cp_weight_of batch_size cp_batch_size start =
     Fin (real (chunk_stop batch_size cp_batch_size start - start) / real batch_size)"

subsection \<open>Critic update\<close>

text \<open>
  One pass of the loop of lines 115 to 126, on the gradient of the critic and the
  accumulated \<^verbatim>\<open>value_loss\<close>.
\<close>

definition critic_chunk ::
  "('obs, 'w, 'g, 'o) backend \<Rightarrow> config \<Rightarrow> 'w \<Rightarrow> 'obs sample \<Rightarrow> int tensor \<Rightarrow>
   nat \<Rightarrow> int \<Rightarrow> nat \<Rightarrow> 'g \<times> fl \<Rightarrow> 'g \<times> fl" where
  "critic_chunk B cfg w smp token_mask batch_size cp_batch_size start acc =
     (let stop = chunk_stop batch_size cp_batch_size start;
          cp_weight = cp_weight_of batch_size cp_batch_size start;
          cp_obs_batch = slice start stop (rollout_observations smp);
          cp_action_tokens_batch = slice start stop (action_tokens smp);
          cp_value_preds_batch = slice start stop (value_preds smp);
          cp_returns_batch = slice start stop (returns smp);
          cp_token_mask = slice start stop token_mask;
          values_infer = get_token_values B w cp_obs_batch cp_action_tokens_batch;
          cp_value_loss = cal_value_loss (huber_loss B) (mse_loss B) cfg
                            values_infer cp_value_preds_batch cp_returns_batch cp_token_mask;
          cp_value_loss = fmul cp_value_loss cp_weight;
          g = value_backward B w
                (cp_obs_batch, cp_action_tokens_batch, cp_value_preds_batch,
                 cp_returns_batch, cp_token_mask) cp_weight (fst acc)
      in (g, fadd (snd acc) cp_value_loss))"

text \<open>
  Lines 113 to 133: the gradients are zeroed, accumulated over the chunks, clipped or
  only measured, and the critic optimizer steps. The result is the new state with
  \<^verbatim>\<open>value_loss\<close> and \<^verbatim>\<open>critic_grad_norm\<close>.
\<close>

definition update_critic ::
  "('obs, 'w, 'g, 'o) backend \<Rightarrow> config \<Rightarrow> ('w, 'g, 'o) trainer \<Rightarrow> 'obs sample \<Rightarrow>
   int tensor \<Rightarrow> nat \<Rightarrow> int \<Rightarrow> ('w, 'g, 'o) trainer \<times> fl \<times> fl" where
  "update_critic B cfg s smp token_mask batch_size cp_batch_size =
     (let acc = fold (critic_chunk B cfg (weights (critic s)) smp token_mask batch_size cp_batch_size)
                  (chunk_starts batch_size cp_batch_size)
                  (zero_grad B (grad (critic s)), Fin 0);
          value_loss = snd acc;
          clipped = (if use_max_grad_norm cfg then clip_grad_norm B (fst acc) (max_grad_norm cfg)
                     else (fst acc, get_gard_norm B (fst acc)));
          critic_grad_norm = snd clipped;
          stepped = opt_step B (critic_optimizer s) (weights (critic s)) (fst clipped)
      in (s\<lparr>critic := \<lparr>weights = snd stepped, grad = fst clipped\<rparr>,
            critic_optimizer := fst stepped\<rparr>,
          value_loss, critic_grad_norm))"

subsection \<open>Policy update\<close>

text \<open>
  Line 140: every registered policy optimizer zeroes the gradients of the parameters
  it holds.
\<close>

definition zero_policy_grads ::
  "('obs, 'w, 'g, 'o) backend \<Rightarrow> (string \<times> 'o optimizer) list \<Rightarrow>
   ('w, 'g) agent list \<Rightarrow> ('w, 'g) agent list" where
  "zero_policy_grads B opts ags =
     fold (\<lambda>ro ags'.
             (let i = owner (snd ro)
              in if i < length ags' then ags'[i := (ags' ! i)\<lparr>grad := zero_grad B (grad (ags' ! i))\<rparr>]
                 else ags'))
       opts ags"

text \<open>
  One pass of the loop of lines 145 to 166, on the gradients of the agents and the
  accumulated \<^verbatim>\<open>total_approx_kl\<close>, \<^verbatim>\<open>total_entropy\<close> and \<^verbatim>\<open>policy_loss\<close>. The advantages
  are the normalized ones.
\<close>

definition policy_chunk ::
  "('obs, 'w, 'g, 'o) backend \<Rightarrow> config \<Rightarrow> 'w list \<Rightarrow> nat option \<Rightarrow> 'obs sample \<Rightarrow>
   fl tensor \<Rightarrow> int tensor \<Rightarrow> nat \<Rightarrow> int \<Rightarrow> nat \<Rightarrow>
   'g list \<times> fl \<times> fl \<times> fl \<Rightarrow> 'g list \<times> fl \<times> fl \<times> fl" where
  "policy_chunk B cfg ws agent_to_train smp advs token_mask batch_size cp_batch_size start acc =
     (let stop = chunk_stop batch_size cp_batch_size start;
          cp_weight = cp_weight_of batch_size cp_batch_size start;
          cp_obs_batch = slice start stop (rollout_observations smp);
          cp_action_tokens_batch = slice start stop (action_tokens smp);
          cp_adv_batch = slice start stop advs;
          cp_log_prob_batch = slice start stop (log_probs smp);
          cp_token_mask = slice start stop token_mask;
          logits_infer = get_token_logits B ws cp_obs_batch cp_action_tokens_batch agent_to_train;
          pi_log_prob = log_softmax B logits_infer;
          cp_action_tokens_batch' =
            (case agent_to_train of None \<Rightarrow> cp_action_tokens_batch
             | Some a \<Rightarrow> agent_slice a cp_action_tokens_batch);
          cp_log_prob_batch' =
            (case agent_to_train of None \<Rightarrow> cp_log_prob_batch
             | Some a \<Rightarrow> agent_slice a cp_log_prob_batch);
          cp_adv_batch' =
            (case agent_to_train of None \<Rightarrow> cp_adv_batch
             | Some a \<Rightarrow> agent_slice a cp_adv_batch);
          cp_token_mask' =
            (case agent_to_train of None \<Rightarrow> cp_token_mask
             | Some a \<Rightarrow> agent_slice a cp_token_mask);
          log_prob_infer = gather B pi_log_prob cp_action_tokens_batch';
          entropy = entropy_of B logits_infer;
          losses = cal_policy_loss cfg log_prob_infer cp_log_prob_batch' cp_adv_batch'
                     entropy cp_token_mask';
          cp_policy_loss = fst losses;
          approx_kl = fst (snd losses);
          cp_entropy = snd (snd losses);
          total_approx_kl = fadd (fst (snd acc)) (fmul approx_kl cp_weight);
          total_entropy = fadd (fst (snd (snd acc))) (fmul cp_entropy cp_weight);
          cp_policy_loss = fmul cp_policy_loss cp_weight;
          gs = map (\<lambda>i. policy_backward B ws agent_to_train
                           (cp_obs_batch, cp_action_tokens_batch', cp_adv_batch',
                            cp_log_prob_batch', cp_token_mask') cp_weight i (fst acc ! i))
                 [0 ..< length (fst acc)];
          policy_loss = fadd (snd (snd (snd acc))) cp_policy_loss
      in (gs, total_approx_kl, total_entropy, policy_loss))"

text \<open>
  \<^verbatim>\<open>self.policy_optimizer[agent.role].step()\<close>: the optimizer registered for the role
  updates the parameters it holds, from their gradients. A missing role raises. The
  registry of \<^verbatim>\<open>__init__\<close> has every owner within the agents; an owner outside them
  stands for an optimizer without parameters, whose step changes nothing.
\<close>

definition step_policy_optimizer ::
  "('obs, 'w, 'g, 'o) backend \<Rightarrow> string \<Rightarrow> ('w, 'g, 'o) trainer \<Rightarrow>
   py_error + ('w, 'g, 'o) trainer" where
  "step_policy_optimizer B r s =
     (case map_of (policy_optimizer s) r of
        None \<Rightarrow> Inl KeyError
      | Some opt \<Rightarrow>
          (let i = owner opt
           in if i < length (agents s) then
                (let stepped = opt_step B (opt_state opt) (weights (agents s ! i)) (grad (agents s ! i))
                 in Inr (s\<lparr>agents := (agents s)[i := (agents s ! i)\<lparr>weights := snd stepped\<rparr>],
                           policy_optimizer :=
                             AList.update r (opt\<lparr>opt_state := fst stepped\<rparr>) (policy_optimizer s)\<rparr>))
              else Inr s))"

text \<open>\<^verbatim>\<open>nn.utils.clip_grad_norm_(agent.parameters(), self.max_grad_norm)\<close> on agent \<open>i\<close>.\<close>

definition clip_agent ::
  "('obs, 'w, 'g, 'o) backend \<Rightarrow> config \<Rightarrow> nat \<Rightarrow> ('w, 'g, 'o) trainer \<Rightarrow>
   ('w, 'g, 'o) trainer \<times> fl" where
  "clip_agent B cfg i s =
     (let clipped = clip_grad_norm B (grad (agents s ! i)) (max_grad_norm cfg)
      in (s\<lparr>agents := (agents s)[i := (agents s ! i)\<lparr>grad := fst clipped\<rparr>]\<rparr>, snd clipped))"

text \<open>
  The loop of lines 177 to 180 over the positions of the agents. It carries the
  trainer, \<^verbatim>\<open>total_policy_grad_norm\<close> and \<^verbatim>\<open>policy_grad_norm\<close>, which is unbound before
  the first pass.
\<close>

fun joint_steps ::
  "('obs, 'w, 'g, 'o) backend \<Rightarrow> config \<Rightarrow> nat list \<Rightarrow>
   ('w, 'g, 'o) trainer \<times> fl \<times> fl option \<Rightarrow>
   py_error + ('w, 'g, 'o) trainer \<times> fl \<times> fl option" where
  "joint_steps B cfg [] acc = Inr acc"
| "joint_steps B cfg (i # rest) acc =
     (let clipped = clip_agent B cfg i (fst acc);
          policy_grad_norm = snd clipped
      in case step_policy_optimizer B (role (agents (fst clipped) ! i)) (fst clipped) of
           Inl e \<Rightarrow> Inl e
         | Inr s' \<Rightarrow>
             joint_steps B cfg rest
               (s', fadd (fst (snd acc)) policy_grad_norm, Some policy_grad_norm))"




type_synonym diagnostics = "fl \<times> fl \<times> fl \<times> fl \<times> fl \<times> fl"

text \<open>
  Lines 140 to 167: the gradients of the policies are zeroed and accumulated over the
  chunks. The result is the new state with \<^verbatim>\<open>total_approx_kl\<close>, \<^verbatim>\<open>total_entropy\<close> and
  \<^verbatim>\<open>policy_loss\<close>.
\<close>

definition policy_accumulate ::
  "('obs, 'w, 'g, 'o) backend \<Rightarrow> config \<Rightarrow> ('w, 'g, 'o) trainer \<Rightarrow> nat option \<Rightarrow>
   'obs sample \<Rightarrow> fl tensor \<Rightarrow> int tensor \<Rightarrow> nat \<Rightarrow> int \<Rightarrow>
   ('w, 'g, 'o) trainer \<times> fl \<times> fl \<times> fl" where
  "policy_accumulate B cfg s agent_to_train smp advs token_mask batch_size cp_batch_size =
     (let ags = zero_policy_grads B (policy_optimizer s) (agents s);
          acc = fold (policy_chunk B cfg (map weights ags) agent_to_train smp advs token_mask
                        batch_size cp_batch_size)
                  (chunk_starts batch_size cp_batch_size)
                  (map grad ags, Fin 0, Fin 0, Fin 0)
      in (s\<lparr>agents := map2 (\<lambda>a g. a\<lparr>grad := g\<rparr>) ags (fst acc)\<rparr>, snd acc))"

text \<open>Lines 168 to 182: the gate on the accumulated approximate KL, then the steps.\<close>

definition policy_commit ::
  "('obs, 'w, 'g, 'o) backend \<Rightarrow> config \<Rightarrow> nat option \<Rightarrow> fl \<Rightarrow> fl \<Rightarrow>
   ('w, 'g, 'o) trainer \<times> fl \<times> fl \<times> fl \<Rightarrow>
   py_error + ('w, 'g, 'o) trainer \<times> diagnostics" where
  "policy_commit B cfg agent_to_train value_loss critic_grad_norm pa =
     (let s2 = fst pa;
          total_approx_kl = fst (snd pa);
          total_entropy = fst (snd (snd pa));
          policy_loss = snd (snd (snd pa))
      in if fgt total_approx_kl (Fin (17 / 10 ^ 7)) then
           Inr (s2, (value_loss, critic_grad_norm, Fin 0, Fin 0, total_approx_kl, total_entropy))
         else
           (case agent_to_train of
              Some a \<Rightarrow>
                if a < length (agents s2) then
                  (let clipped = clip_agent B cfg a s2;
                       policy_grad_norm = snd clipped
                   in case step_policy_optimizer B (role (agents (fst clipped) ! a)) (fst clipped) of
                        Inl e \<Rightarrow> Inl e
                      | Inr s4 \<Rightarrow>
                          Inr (s4, (value_loss, critic_grad_norm, policy_loss, policy_grad_norm,
                                    total_approx_kl, total_entropy)))
                else Inl IndexError
            | None \<Rightarrow>
                (case joint_steps B cfg [0 ..< length (agents s2)] (s2, Fin 0, None) of
                   Inl e \<Rightarrow> Inl e
                 | Inr res \<Rightarrow>
                     (case snd (snd res) of
                        None \<Rightarrow> Inl UnboundLocalError
                      | Some policy_grad_norm \<Rightarrow>
                          Inr (fst res, (value_loss, critic_grad_norm, policy_loss, policy_grad_norm,
                                         total_approx_kl, total_entropy))))))"

definition ppo_update ::
  "('obs, 'w, 'g, 'o) backend \<Rightarrow> config \<Rightarrow> ('w, 'g, 'o) trainer \<Rightarrow> 'obs sample \<Rightarrow> int \<Rightarrow>
   py_error + ('w, 'g, 'o) trainer \<times> diagnostics" where
  "ppo_update B cfg s smp global_steps =
     (case select_agent cfg global_steps of
        Inl e \<Rightarrow> Inl e
      | Inr agent_to_train \<Rightarrow>
          (let advs = normalize_advantages (advantages smp);
               token_mask = cal_token_mask cfg (action_tokens smp);
               batch_size = length (rollout_observations smp)
           in case cp_batch_size_of cfg batch_size of
                Inl e \<Rightarrow> Inl e
              | Inr cp_batch_size \<Rightarrow>
                  (let cu = update_critic B cfg s smp token_mask batch_size cp_batch_size;
                       value_loss = fst (snd cu);
                       critic_grad_norm = snd (snd cu)
                   in if global_steps < warmup_steps cfg then
                        Inr (fst cu, (value_loss, critic_grad_norm, Fin 0, Fin 0, Fin 0, Fin 0))
                      else policy_commit B cfg agent_to_train value_loss critic_grad_norm
                             (policy_accumulate B cfg (fst cu) agent_to_train smp advs token_mask
                                batch_size cp_batch_size))))"

section \<open>The epoch driver\<close>

text \<open>
  \<^verbatim>\<open>train_info\<close> is a dictionary from the names of the diagnostics to their sums. The
  buffer is given by the minibatches that \<^verbatim>\<open>buffer.sample(num_mini_batch)\<close> yields in each
  epoch.
\<close>

type_synonym train_info = "(string \<times> fl) list"

definition initial_train_info :: train_info where
  "initial_train_info =
     [(''value_loss'', Fin 0), (''value_grad_norm'', Fin 0), (''policy_loss'', Fin 0),
      (''policy_grad_norm'', Fin 0), (''entropy'', Fin 0), (''approx_kl'', Fin 0)]"

definition add_info :: "string \<Rightarrow> fl \<Rightarrow> train_info \<Rightarrow> train_info" where
  "add_info k v info = AList.map_entry k (\<lambda>x. fadd x v) info"

fun train_minibatches ::
  "('obs, 'w, 'g, 'o) backend \<Rightarrow> config \<Rightarrow> int \<Rightarrow> 'obs sample list \<Rightarrow>
   ('w, 'g, 'o) trainer \<times> train_info \<times> nat \<Rightarrow>
   py_error + ('w, 'g, 'o) trainer \<times> train_info \<times> nat" where
  "train_minibatches B cfg global_steps [] acc = Inr acc"
| "train_minibatches B cfg global_steps (smp # rest) acc =
     (case ppo_update B cfg (fst acc) smp global_steps of
        Inl e \<Rightarrow> Inl e
      | Inr (s', value_loss, value_grad_norm, policy_loss, policy_grad_norm, approx_kl, entropy) \<Rightarrow>
          train_minibatches B cfg global_steps rest
            (s',
             add_info ''approx_kl'' approx_kl
               (add_info ''entropy'' entropy
                  (add_info ''policy_grad_norm'' policy_grad_norm
                     (add_info ''policy_loss'' policy_loss
                        (add_info ''value_grad_norm'' value_grad_norm
                           (add_info ''value_loss'' value_loss (fst (snd acc))))))),
             snd (snd acc) + 1))"

fun train_epochs ::
  "('obs, 'w, 'g, 'o) backend \<Rightarrow> config \<Rightarrow> int \<Rightarrow> (nat \<Rightarrow> 'obs sample list) \<Rightarrow> nat list \<Rightarrow>
   ('w, 'g, 'o) trainer \<times> train_info \<times> nat \<Rightarrow>
   py_error + ('w, 'g, 'o) trainer \<times> train_info \<times> nat" where
  "train_epochs B cfg global_steps buffer [] acc = Inr acc"
| "train_epochs B cfg global_steps buffer (epoch # rest) acc =
     (case train_minibatches B cfg global_steps (buffer epoch) acc of
        Inl e \<Rightarrow> Inl e
      | Inr acc' \<Rightarrow> train_epochs B cfg global_steps buffer rest acc')"

text \<open>
  Lines 215 and 216 divide every entry by \<^verbatim>\<open>update_time\<close>. Without any update the
  entries are still the floats of line 192 on, and a float divided by the integer zero
  raises.
\<close>

definition train ::
  "('obs, 'w, 'g, 'o) backend \<Rightarrow> config \<Rightarrow> ('w, 'g, 'o) trainer \<Rightarrow> (nat \<Rightarrow> 'obs sample list) \<Rightarrow>
   int \<Rightarrow> py_error + ('w, 'g, 'o) trainer \<times> train_info" where
  "train B cfg s buffer global_steps =
     (case train_epochs B cfg global_steps buffer [0 ..< nat (ppo_epoch cfg)]
             (s, initial_train_info, 0) of
        Inl e \<Rightarrow> Inl e
      | Inr res \<Rightarrow>
          (let update_time = snd (snd res)
           in if update_time = 0 then Inl ZeroDivisionError
              else Inr (fst res,
                        map (\<lambda>kv. (fst kv, fdiv (snd kv) (Fin (real update_time))))
                          (fst (snd res)))))"

section \<open>The losses as the specification words them\<close>

text \<open>
  The specification gives the policy loss per token, on real numbers: the ratio
  \<open>r = exp(log_prob_infer - log_prob_old)\<close>, the approximate KL \<open>(r - 1) - log r\<close>, the loss
  \<open>max(-clip(r, 1 - \<epsilon>, 1 + \<epsilon>) * A, -r * A) - entropy_coef * entropy\<close>, and the masked mean
  \<open>sum(value * mask) / sum(mask)\<close>. These definitions follow those words, not the code.
\<close>

definition spec_ratio :: "real \<Rightarrow> real \<Rightarrow> real" where
  "spec_ratio log_prob_infer log_prob_old = exp (log_prob_infer - log_prob_old)"

definition spec_token_kl :: "real \<Rightarrow> real" where
  "spec_token_kl r = (r - 1) - ln r"

text \<open>\<open>clip(r, lo, hi)\<close> bounds \<open>r\<close> below by \<open>lo\<close> and the result above by \<open>hi\<close>.\<close>

definition spec_clip :: "real \<Rightarrow> real \<Rightarrow> real \<Rightarrow> real" where
  "spec_clip r lo hi = min (max r lo) hi"

text \<open>
  The advantages are normalized with the mean and the standard deviation of the entries
  that are not zero.
\<close>

definition spec_mean :: "real list \<Rightarrow> real" where
  "spec_mean ys = sum_list ys / real (length ys)"

definition spec_std :: "real list \<Rightarrow> real" where
  "spec_std ys = sqrt (sum_list (map (\<lambda>y. (y - spec_mean ys)\<^sup>2) ys) / real (length ys))"

definition spec_token_loss :: "config \<Rightarrow> real \<Rightarrow> real \<Rightarrow> real \<Rightarrow> real" where
  "spec_token_loss cfg r A ent =
     max (- spec_clip r (1 - clip_param cfg) (1 + clip_param cfg) * A) (- r * A)
       - entropy_coef cfg * ent"

definition spec_masked_mean :: "real list \<Rightarrow> int list \<Rightarrow> real" where
  "spec_masked_mean vs ms = sum_list (map2 (\<lambda>v m. v * of_int m) vs ms) / of_int (sum_list ms)"


section \<open>A small instance\<close>

text \<open>
  An instance of the external operations, to run the trainer on concrete data. The
  critic and each agent have one parameter. The critic predicts its parameter for every
  token; the policies give both tokens of a vocabulary of two the logit zero. The
  losses, \<^verbatim>\<open>log_softmax\<close>, \<^verbatim>\<open>gather\<close>, the entropy and the gradient norms are the usual
  ones; \<open>value_backward\<close> adds the derivative of the weighted chunk loss where the value
  clip is inactive, \<open>policy_backward\<close> adds a fixed multiple of the chunk weight to the
  agents that are trained, and an optimizer step subtracts the gradient and counts.
\<close>

fun flog :: "fl \<Rightarrow> fl" where
  "flog (Fin x) = (if 0 < x then Fin (ln x) else NaN)"
| "flog NaN = NaN"

fun fabs :: "fl \<Rightarrow> fl" where
  "fabs (Fin x) = Fin \<bar>x\<bar>"
| "fabs NaN = NaN"

definition ex_log_softmax :: "fl list \<Rightarrow> fl list" where
  "ex_log_softmax xs = map (\<lambda>x. fsub x (flog (fsum (map fexp xs)))) xs"

definition ex_gather :: "fl list \<Rightarrow> int \<Rightarrow> fl" where
  "ex_gather xs t = (if 0 \<le> t \<and> nat t < length xs then xs ! nat t else NaN)"

definition ex_entropy :: "fl list \<Rightarrow> fl" where
  "ex_entropy xs = fneg (fsum (map (\<lambda>l. fmul (fexp l) l) (ex_log_softmax xs)))"

definition ex_clip_grad_norm :: "fl \<Rightarrow> real \<Rightarrow> fl \<times> fl" where
  "ex_clip_grad_norm g max_norm =
     (let total_norm = fabs g;
          clip_coef = fdiv (Fin max_norm) (fadd total_norm (Fin (1 / 10 ^ 6)));
          clip_coef_clamped = (case clip_coef of Fin c \<Rightarrow> Fin (min c 1) | NaN \<Rightarrow> NaN)
      in (fmul g clip_coef_clamped, total_norm))"

definition example_backend :: "(nat, fl, fl, nat) backend" where
  "example_backend =
     \<lparr>get_token_values = (\<lambda>w obs toks. tmap (\<lambda>t. w) toks),
      get_token_logits = (\<lambda>ws obs toks a.
         tmap (\<lambda>t. [Fin 0, Fin 0]) (case a of None \<Rightarrow> toks | Some i \<Rightarrow> agent_slice i toks)),
      log_softmax = tmap ex_log_softmax,
      gather = tmap2 ex_gather,
      entropy_of = tmap ex_entropy,
      huber_loss = (\<lambda>e d. case e of NaN \<Rightarrow> NaN
                     | Fin x \<Rightarrow> Fin (if \<bar>x\<bar> \<le> d then x\<^sup>2 / 2 else d * (\<bar>x\<bar> - d / 2))),
      mse_loss = (\<lambda>e. fdiv (fmul e e) (Fin 2)),
      value_backward = (\<lambda>w chunk cp_weight g.
         case chunk of (obs, toks, preds, rets, msk) \<Rightarrow>
           fadd g (fmul cp_weight (masked_mean (tmap (\<lambda>r. fsub w r) rets) msk))),
      policy_backward = (\<lambda>ws a chunk cp_weight i g.
         if a = None \<or> a = Some i then fadd g (fmul cp_weight (Fin 3)) else g),
      zero_grad = (\<lambda>g. Fin 0),
      clip_grad_norm = ex_clip_grad_norm,
      get_gard_norm = fabs,
      opt_step = (\<lambda>n w g. (Suc n, fsub w g))\<rparr>"

definition example_config :: config where
  "example_config =
     \<lparr>num_agent = 2, warmup_steps = 0, agent_iteration_interval = 0, clip_param = 1 / 5,
      ppo_epoch = 1, num_mini_batch = 1, value_loss_coef = 1, max_grad_norm = 1 / 2,
      huber_delta = 10, entropy_coef = 0, use_max_grad_norm = True,
      use_clipped_value_loss = True, use_huber_loss = False, gradient_cp_steps = 2,
      pad_token = 0\<rparr>"

definition example_trainer :: "(fl, fl, nat) trainer" where
  "example_trainer =
     \<lparr>agents = [\<lparr>weights = Fin 0, grad = Fin 0, role = ''planner''\<rparr>,
                \<lparr>weights = Fin 0, grad = Fin 0, role = ''solver''\<rparr>],
      critic = \<lparr>weights = Fin 0, grad = Fin 0\<rparr>,
      policy_optimizer = [(''planner'', \<lparr>owner = 0, opt_state = 0\<rparr>),
                          (''solver'', \<lparr>owner = 1, opt_state = 0\<rparr>)],
      critic_optimizer = 0\<rparr>"

text \<open>
  A minibatch of two rows, two agents and one token each. The second agent of the
  second row holds the pad token. The log-probability recorded at rollout is
  \<open>- ln 2 - d\<close>, so that \<open>d\<close> is the log-ratio under the uniform policy.
\<close>

definition example_sample :: "real \<Rightarrow> nat sample" where
  "example_sample d =
     \<lparr>observations = [0, 1], actions = [0, 1], rollout_observations = [0, 1],
      log_probs = [[[Fin (- ln 2 - d)], [Fin (- ln 2 - d)]],
                   [[Fin (- ln 2 - d)], [Fin (- ln 2 - d)]]],
      value_preds = [[[Fin 0], [Fin 0]], [[Fin 0], [Fin 0]]],
      returns = [[[Fin 0], [Fin 0]], [[Fin 2], [Fin 0]]],
      advantages = [[[Fin 1], [Fin 3]], [[Fin 0], [Fin 0]]],
      action_tokens = [[[1], [1]], [[1], [0]]]\<rparr>"

text \<open>The trainer after the critic update on the minibatch.\<close>

definition example_trainer1 :: "(fl, fl, nat) trainer" where
  "example_trainer1 =
     example_trainer
       \<lparr>critic := \<lparr>weights = Fin (500000 / 1000001), grad = Fin (- (500000 / 1000001))\<rparr>,
        critic_optimizer := Suc 0\<rparr>"

definition example_mask :: "int tensor" where
  "example_mask = [[[1], [1]], [[1], [0]]]"

definition example_advantages :: "fl tensor" where
  "example_advantages =
     [[[Fin (- (100000000 / 100000001))], [Fin (100000000 / 100000001)]],
      [[Fin (- (200000000 / 100000001))], [Fin (- (200000000 / 100000001))]]]"

text \<open>The trainer after the gradients of the policies are accumulated, for \<open>d = 0\<close>.\<close>

definition example_accumulated :: "(fl, fl, nat) trainer" where
  "example_accumulated =
     example_trainer1
       \<lparr>agents := [\<lparr>weights = Fin 0, grad = Fin 3, role = ''planner''\<rparr>,
                   \<lparr>weights = Fin 0, grad = Fin 3, role = ''solver''\<rparr>]\<rparr>"

text \<open>The trainer after the joint policy update on the minibatch with \<open>d = 0\<close>.\<close>

definition example_trainer2 :: "(fl, fl, nat) trainer" where
  "example_trainer2 =
     example_trainer1
       \<lparr>agents := [\<lparr>weights = Fin (- (1500000 / 3000001)), grad = Fin (1500000 / 3000001),
                     role = ''planner''\<rparr>,
                   \<lparr>weights = Fin (- (1500000 / 3000001)), grad = Fin (1500000 / 3000001),
                     role = ''solver''\<rparr>],
        policy_optimizer := [(''planner'', \<lparr>owner = 0, opt_state = Suc 0\<rparr>),
                             (''solver'', \<lparr>owner = 1, opt_state = Suc 0\<rparr>)]\<rparr>"

text \<open>
  Two agents with one role, and the registry that \<^verbatim>\<open>__init__\<close> builds for them: the one
  optimizer under the role holds the parameters of the second agent.
\<close>

definition shared_agents :: "(fl, fl) agent list" where
  "shared_agents = [\<lparr>weights = Fin 0, grad = Fin 0, role = ''planner''\<rparr>,
                    \<lparr>weights = Fin 0, grad = Fin 0, role = ''planner''\<rparr>]"

definition shared_trainer :: "(fl, fl, nat) trainer" where
  "shared_trainer =
     \<lparr>agents = shared_agents,
      critic = \<lparr>weights = Fin 0, grad = Fin 0\<rparr>,
      policy_optimizer = init_policy_optimizer 0 shared_agents,
      critic_optimizer = 0\<rparr>"





section \<open>What each phase leaves unchanged\<close>

lemma update_critic_frame:
  "agents (fst (update_critic B cfg s smp m b cp)) = agents s"
  "policy_optimizer (fst (update_critic B cfg s smp m b cp)) = policy_optimizer s"
  by (simp_all add: update_critic_def Let_def)

lemma update_critic_step:
  "critic_optimizer (fst (update_critic B cfg s smp m b cp)) =
     fst (opt_step B (critic_optimizer s) (weights (critic s))
            (grad (critic (fst (update_critic B cfg s smp m b cp)))))"
  "weights (critic (fst (update_critic B cfg s smp m b cp))) =
     snd (opt_step B (critic_optimizer s) (weights (critic s))
            (grad (critic (fst (update_critic B cfg s smp m b cp)))))"
  by (simp_all add: update_critic_def Let_def)

lemma critic_chunk_policy_free:
  "critic_chunk (B\<lparr>get_token_logits := f1, log_softmax := f2, gather := f3, entropy_of := f4,
                  policy_backward := f5\<rparr>) = critic_chunk B"
  by (intro ext) (simp add: critic_chunk_def)

lemma update_critic_policy_free:
  "update_critic (B\<lparr>get_token_logits := f1, log_softmax := f2, gather := f3, entropy_of := f4,
                  policy_backward := f5\<rparr>) = update_critic B"
  by (intro ext) (simp add: update_critic_def critic_chunk_policy_free Let_def)

lemma zero_policy_grads_frame:
  "length (zero_policy_grads B opts ags) = length ags \<and>
   map weights (zero_policy_grads B opts ags) = map weights ags \<and>
   map role (zero_policy_grads B opts ags) = map role ags"
proof (induction opts arbitrary: ags)
  case Nil
  show ?case by (simp add: zero_policy_grads_def)
next
  case (Cons ro opts)
  let ?ags' = "(let i = owner (snd ro)
              in if i < length ags then ags[i := (ags ! i)\<lparr>grad := zero_grad B (grad (ags ! i))\<rparr>]
                 else ags)"
  have step: "zero_policy_grads B (ro # opts) ags = zero_policy_grads B opts ?ags'"
    by (simp add: zero_policy_grads_def)
  have "length ?ags' = length ags" by (simp add: Let_def)
  moreover have "map weights ?ags' = map weights ags"
    by (simp add: Let_def map_update list_update_same_conv)
  moreover have "map role ?ags' = map role ags"
    by (simp add: Let_def map_update list_update_same_conv)
  ultimately show ?case using Cons.IH [of ?ags'] by (simp only: step)
qed

lemma policy_chunk_length:
  "length (fst (policy_chunk B cfg ws a smp advs m b cp start acc)) = length (fst acc)"
  by (simp add: policy_chunk_def Let_def)

lemma fold_policy_chunk_length:
  "length (fst (fold (policy_chunk B cfg ws a smp advs m b cp) starts acc)) = length (fst acc)"
  by (induction starts arbitrary: acc) (simp_all add: policy_chunk_length)

lemma set_grads_frame:
  "length gs = length ags \<Longrightarrow>
   map weights (map2 (\<lambda>a g. a\<lparr>grad := g\<rparr>) ags gs) = map weights ags \<and>
   map role (map2 (\<lambda>a g. a\<lparr>grad := g\<rparr>) ags gs) = map role ags \<and>
   map grad (map2 (\<lambda>a g. a\<lparr>grad := g\<rparr>) ags gs) = gs"
  by (induction ags gs rule: list_induct2') simp_all

lemma policy_accumulate_frame:
  "policy_optimizer (fst (policy_accumulate B cfg s a smp advs m b cp)) = policy_optimizer s"
  "critic (fst (policy_accumulate B cfg s a smp advs m b cp)) = critic s"
  "critic_optimizer (fst (policy_accumulate B cfg s a smp advs m b cp)) = critic_optimizer s"
  by (simp_all add: policy_accumulate_def Let_def)

lemma policy_accumulate_agents:
  "agents (fst (policy_accumulate B cfg s a smp advs m b cp)) =
   map2 (\<lambda>a g. a\<lparr>grad := g\<rparr>) (zero_policy_grads B (policy_optimizer s) (agents s))
     (fst (fold (policy_chunk B cfg
                   (map weights (zero_policy_grads B (policy_optimizer s) (agents s)))
                   a smp advs m b cp)
             (chunk_starts b cp)
             (map grad (zero_policy_grads B (policy_optimizer s) (agents s)), Fin 0, Fin 0, Fin 0)))"
  by (simp add: policy_accumulate_def Let_def)

lemma policy_accumulate_weights:
  "map weights (agents (fst (policy_accumulate B cfg s a smp advs m b cp))) = map weights (agents s)"
  "map role (agents (fst (policy_accumulate B cfg s a smp advs m b cp))) = map role (agents s)"
proof -
  let ?ags = "zero_policy_grads B (policy_optimizer s) (agents s)"
  let ?acc = "fold (policy_chunk B cfg (map weights ?ags) a smp advs m b cp)
                (chunk_starts b cp) (map grad ?ags, Fin 0, Fin 0, Fin 0)"
  have len: "length (fst ?acc) = length ?ags"
    by (simp add: fold_policy_chunk_length)
  note fr = set_grads_frame [OF len] zero_policy_grads_frame [of B "policy_optimizer s" "agents s"]
  show "map weights (agents (fst (policy_accumulate B cfg s a smp advs m b cp))) = map weights (agents s)"
    unfolding policy_accumulate_agents using fr by (simp only:)
  show "map role (agents (fst (policy_accumulate B cfg s a smp advs m b cp))) = map role (agents s)"
    unfolding policy_accumulate_agents using fr by (simp only:)
qed


section \<open>The small instance, evaluated\<close>

lemmas ex_defs = example_backend_def example_trainer_def example_sample_def
  ex_log_softmax_def ex_gather_def ex_entropy_def ex_clip_grad_norm_def
  example_trainer1_def example_mask_def example_advantages_def example_accumulated_def

lemmas tensor_defs = masked_mean_def tmask_def tsum_def isum_def flat_def
  tmap_def tmap2_def slice_def agent_slice_def fsum_def

lemma example_mask_eq:
  "pad_token cfg = 0 \<Longrightarrow> cal_token_mask cfg (action_tokens (example_sample d)) = example_mask"
  by (simp add: cal_token_mask_def example_sample_def tmap_def example_mask_def)

lemma example_batch_size: "length (rollout_observations (example_sample d)) = 2"
  by (simp add: example_sample_def)

lemma example_cp: "gradient_cp_steps cfg = 2 \<Longrightarrow> cp_batch_size_of cfg 2 = Inr 1"
  by (simp add: cp_batch_size_of_def)

lemma example_starts: "chunk_starts 2 1 = [0, 1]"
  by (simp add: chunk_starts_def upt_rec)

lemma example_advantages_eq:
  "normalize_advantages (advantages (example_sample d)) = example_advantages"
  by (simp add: normalize_advantages_def example_sample_def nanmean_def nanstd_def
        finite_entries_def tmap_def flat_def example_advantages_def)

lemma example_update_critic:
  assumes "clip_param cfg = 1 / 5" "\<not> use_huber_loss cfg" "value_loss_coef cfg = 1"
    "use_max_grad_norm cfg" "max_grad_norm cfg = 1 / 2"
  shows "update_critic example_backend cfg example_trainer (example_sample d) example_mask 2 1 =
           (example_trainer1, Fin 1, Fin 1)"
  using assms
  by (simp add: update_critic_def example_starts critic_chunk_def chunk_stop_def cp_weight_of_def
        cal_value_loss_def tensor_defs ex_defs Let_def)

lemma example_policy_accumulate_0:
  assumes "clip_param cfg = 1 / 5" "entropy_coef cfg = 0"
  shows "policy_accumulate example_backend cfg example_trainer1 None (example_sample 0)
           example_advantages example_mask 2 1 =
         (example_accumulated,
          Fin 0, Fin (2 * (ln 2 * exp (- ln 2))), Fin (100000000 / 100000001))"
  using assms
  by (simp add: policy_accumulate_def zero_policy_grads_def example_starts policy_chunk_def
        chunk_stop_def cp_weight_of_def cal_policy_loss_def tensor_defs ex_defs Let_def)

lemma example_policy_accumulate_1:
  assumes "clip_param cfg = 1 / 5" "entropy_coef cfg = 0"
  shows "fst (snd (policy_accumulate example_backend cfg example_trainer1 None (example_sample 1)
                     example_advantages example_mask 2 1)) =
         Fin ((2 * exp 1 - 4) / 4 + (exp 1 - 2) / 2)"
  using assms
  by (simp add: policy_accumulate_def zero_policy_grads_def example_starts policy_chunk_def
        chunk_stop_def cp_weight_of_def cal_policy_loss_def tensor_defs ex_defs Let_def)

lemma exp_one_bound: "5 / 2 \<le> exp (1::real)"
  using exp_lower_Taylor_quadratic [of "1::real"] by simp

lemma example_kl_bound: "17 / 10 ^ 7 < (2 * exp 1 - 4) / 4 + (exp (1::real) - 2) / 2"
proof -
  have "(2 * exp 1 - 4) / 4 + (exp (1::real) - 2) / 2 = exp 1 - 2"
    by (simp add: field_simps)
  moreover have "(17::real) / 10 ^ 7 < 1 / 2" by simp
  ultimately show ?thesis using exp_one_bound by linarith
qed


lemma example_policy_commit_0:
  assumes "max_grad_norm cfg = 1 / 2"
  shows "policy_commit example_backend cfg None vl cgn
           (example_accumulated,
            Fin 0, Fin (2 * (ln 2 * exp (- ln 2))), Fin (100000000 / 100000001)) =
         Inr (example_trainer2,
              (vl, cgn, Fin (100000000 / 100000001), Fin 3, Fin 0, Fin (2 * (ln 2 * exp (- ln 2)))))"
  using assms
  by (simp add: policy_commit_def upt_rec clip_agent_def step_policy_optimizer_def ex_defs
        example_trainer2_def Let_def)

lemma shared_registry:
  "policy_optimizer shared_trainer = [(''planner'', \<lparr>owner = 1, opt_state = 0\<rparr>)]"
  by (simp add: shared_trainer_def shared_agents_def init_policy_optimizer_def upt_rec)





lemma unclipped_update_critic:
  assumes "clip_param cfg = 1 / 5" "\<not> use_huber_loss cfg" "value_loss_coef cfg = 1"
    "\<not> use_max_grad_norm cfg"
  shows "update_critic example_backend cfg example_trainer (example_sample d) example_mask 2 1 =
           (example_trainer\<lparr>critic := \<lparr>weights = Fin 1, grad = Fin (- 1)\<rparr>,
                             critic_optimizer := Suc 0\<rparr>, Fin 1, Fin 1)"
  using assms
  by (simp add: update_critic_def example_starts critic_chunk_def chunk_stop_def cp_weight_of_def
        cal_value_loss_def tensor_defs ex_defs Let_def)

lemma unclipped_policy_accumulate:
  assumes "clip_param cfg = 1 / 5" "entropy_coef cfg = 0"
  shows "policy_accumulate example_backend cfg
           (example_trainer\<lparr>critic := \<lparr>weights = Fin 1, grad = Fin (- 1)\<rparr>,
                             critic_optimizer := Suc 0\<rparr>)
           None (example_sample 0) example_advantages example_mask 2 1 =
         (example_trainer
            \<lparr>agents := [\<lparr>weights = Fin 0, grad = Fin 3, role = ''planner''\<rparr>,
                        \<lparr>weights = Fin 0, grad = Fin 3, role = ''solver''\<rparr>],
             critic := \<lparr>weights = Fin 1, grad = Fin (- 1)\<rparr>,
             critic_optimizer := Suc 0\<rparr>,
          Fin 0, Fin (2 * (ln 2 * exp (- ln 2))), Fin (100000000 / 100000001))"
  using assms
  by (simp add: policy_accumulate_def zero_policy_grads_def example_starts policy_chunk_def
        chunk_stop_def cp_weight_of_def cal_policy_loss_def tensor_defs ex_defs Let_def)

lemma unclipped_policy_commit:
  assumes "max_grad_norm cfg = 1 / 2"
  shows "policy_commit example_backend cfg None vl cgn
           (example_trainer
            \<lparr>agents := [\<lparr>weights = Fin 0, grad = Fin 3, role = ''planner''\<rparr>,
                        \<lparr>weights = Fin 0, grad = Fin 3, role = ''solver''\<rparr>],
             critic := \<lparr>weights = Fin 1, grad = Fin (- 1)\<rparr>,
             critic_optimizer := Suc 0\<rparr>,
          Fin 0, Fin (2 * (ln 2 * exp (- ln 2))), Fin (100000000 / 100000001)) =
         Inr (example_trainer2\<lparr>critic := \<lparr>weights = Fin 1, grad = Fin (- 1)\<rparr>\<rparr>,
              (vl, cgn, Fin (100000000 / 100000001), Fin 3, Fin 0, Fin (2 * (ln 2 * exp (- ln 2)))))"
  using assms
  by (simp add: policy_commit_def upt_rec clip_agent_def step_policy_optimizer_def ex_defs
        example_trainer2_def Let_def)








section \<open>The steps of the policy optimizers\<close>


lemma clip_agent_simps:
  "agents (fst (clip_agent B cfg i s)) =
     (agents s)[i := (agents s ! i)\<lparr>grad := fst (clip_grad_norm B (grad (agents s ! i)) (max_grad_norm cfg))\<rparr>]"
  "policy_optimizer (fst (clip_agent B cfg i s)) = policy_optimizer s"
  "critic (fst (clip_agent B cfg i s)) = critic s"
  "critic_optimizer (fst (clip_agent B cfg i s)) = critic_optimizer s"
  "snd (clip_agent B cfg i s) = snd (clip_grad_norm B (grad (agents s ! i)) (max_grad_norm cfg))"
  by (simp_all add: clip_agent_def Let_def)





lemma step_policy_optimizer_grads:
  assumes "step_policy_optimizer B r s = Inr s'"
  shows "length (agents s') = length (agents s) \<and> map grad (agents s') = map grad (agents s)"
proof (cases "map_of (policy_optimizer s) r")
  case None
  with assms show ?thesis by (simp add: step_policy_optimizer_def)
next
  case (Some opt)
  show ?thesis
  proof (cases "owner opt < length (agents s)")
    case True
    with Some assms have "agents s' = (agents s)[owner opt := (agents s ! owner opt)
        \<lparr>weights := snd (opt_step B (opt_state opt) (weights (agents s ! owner opt)) (grad (agents s ! owner opt)))\<rparr>]"
      by (auto simp add: step_policy_optimizer_def Let_def)
    then show ?thesis using True by (simp add: map_update list_update_same_conv)
  next
    case False
    with Some assms show ?thesis by (auto simp add: step_policy_optimizer_def Let_def)
  qed
qed

lemma joint_steps_norms:
  fixes B :: "('obs, 'w, 'g, 'o) backend" and cfg :: config
  assumes "joint_steps B cfg is (s, tot, pg) = Inr res" "distinct is"
      and "\<forall>i\<in>set is. i < length (agents s)"
  shows "fst (snd res) =
           fold (\<lambda>i t. fadd t (snd (clip_grad_norm B (grad (agents s ! i)) (max_grad_norm cfg)))) is tot
         \<and> snd (snd res) =
             (if is = [] then pg
              else Some (snd (clip_grad_norm B (grad (agents s ! last is)) (max_grad_norm cfg))))"
  using assms
proof (induction "is" arbitrary: s tot pg)
  case Nil
  then show ?case by auto
next
  case (Cons i rest)
  let ?n = "\<lambda>s i. snd (clip_grad_norm B (grad (agents s ! i)) (max_grad_norm cfg))"
  let ?s1 = "fst (clip_agent B cfg i s)"
  from Cons.prems(1) obtain s' where
    st: "step_policy_optimizer B (role (agents ?s1 ! i)) ?s1 = Inr s'" and
    run: "joint_steps B cfg rest (s', fadd tot (?n s i), Some (?n s i)) = Inr res"
    by (auto simp add: Let_def clip_agent_simps split: sum.splits)
  have i: "i < length (agents s)" using Cons.prems(3) by simp
  from step_policy_optimizer_grads [OF st]
  have len: "length (agents s') = length (agents s)"
    and gr: "map grad (agents s') = (map grad (agents s))[i := fst (clip_grad_norm B (grad (agents s ! i)) (max_grad_norm cfg))]"
    by (simp_all add: clip_agent_simps map_update)
  have same: "grad (agents s' ! j) = grad (agents s ! j)" if "j \<in> set rest" for j
  proof -
    have j: "j < length (agents s)" "j \<noteq> i" using that Cons.prems(2,3) by auto
    have "grad (agents s' ! j) = map grad (agents s') ! j" using j len by simp
    also have "\<dots> = map grad (agents s) ! j" unfolding gr using j by simp
    finally show ?thesis using j by simp
  qed
  have d: "distinct rest" and r: "\<forall>j\<in>set rest. j < length (agents s')"
    using Cons.prems(2,3) len by simp_all
  note IH = Cons.IH [OF run d r]
  have f: "fold (\<lambda>i t. fadd t (?n s' i)) rest (fadd tot (?n s i)) =
           fold (\<lambda>i t. fadd t (?n s i)) rest (fadd tot (?n s i))"
    by (rule fold_cong) (simp_all add: same)
  have l: "rest \<noteq> [] \<Longrightarrow> ?n s' (last rest) = ?n s (last (i # rest))"
    by (simp add: same)
  show ?case using IH f l by auto
qed



section \<open>The policy update after the gate\<close>


lemma ppo_update_commit:
  assumes "warmup_steps cfg \<le> global_steps"
      and "select_agent cfg global_steps = Inr agent_to_train"
      and "cp_batch_size_of cfg (length (rollout_observations smp)) = Inr cp_batch_size"
  shows "ppo_update B cfg s smp global_steps =
           (let cu = update_critic B cfg s smp (cal_token_mask cfg (action_tokens smp))
                       (length (rollout_observations smp)) cp_batch_size
            in policy_commit B cfg agent_to_train (fst (snd cu)) (snd (snd cu))
                 (policy_accumulate B cfg (fst cu) agent_to_train smp
                    (normalize_advantages (advantages smp))
                    (cal_token_mask cfg (action_tokens smp))
                    (length (rollout_observations smp)) cp_batch_size))"
  using assms by (simp add: ppo_update_def Let_def)


lemma fold_positions:
  "fold (\<lambda>i. f (xs ! i)) [0 ..< length xs] a = fold f xs a"
proof -
  have "fold f xs a = fold f (map (nth xs) [0 ..< length xs]) a" by (simp add: map_nth)
  also have "\<dots> = fold (\<lambda>i. f (xs ! i)) [0 ..< length xs] a" by (simp add: fold_map comp_def)
  finally show ?thesis by simp
qed

lemma policy_commit_joint_result:
  fixes B :: "('obs, 'w, 'g, 'o) backend" and cfg :: config
  assumes ret: "policy_commit B cfg None value_loss critic_grad_norm pa = Inr (s', d)"
      and gate: "\<not> fgt (fst (snd pa)) (Fin (17 / 10 ^ 7))"
  shows "agents (fst pa) \<noteq> []
         \<and> d = (value_loss, critic_grad_norm, snd (snd (snd pa)),
                snd (clip_grad_norm B (grad (last (agents (fst pa)))) (max_grad_norm cfg)),
                fst (snd pa), fst (snd (snd pa)))
         \<and> joint_steps B cfg [0 ..< length (agents (fst pa))] (fst pa, Fin 0, None) =
             Inr (s', fold (\<lambda>a t. fadd t (snd (clip_grad_norm B (grad a) (max_grad_norm cfg))))
                        (agents (fst pa)) (Fin 0),
                  Some (snd (clip_grad_norm B (grad (last (agents (fst pa)))) (max_grad_norm cfg))))"
proof -
  let ?s2 = "fst pa"
  let ?is = "[0 ..< length (agents ?s2)]"
  let ?n = "\<lambda>a. snd (clip_grad_norm B (grad a) (max_grad_norm cfg))"
  from ret gate obtain res pgn where run: "joint_steps B cfg ?is (?s2, Fin 0, None) = Inr res"
    and pg: "snd (snd res) = Some pgn"
    and s': "s' = fst res"
    and d: "d = (value_loss, critic_grad_norm, snd (snd (snd pa)), pgn, fst (snd pa), fst (snd (snd pa)))"
    by (auto simp add: policy_commit_def Let_def split: sum.splits option.splits)
  have di: "distinct ?is" and r: "\<forall>i\<in>set ?is. i < length (agents ?s2)" by simp_all
  note N = joint_steps_norms [OF run di r]
  have ne: "agents ?s2 \<noteq> []"
  proof
    assume "agents ?s2 = []"
    then have "snd (snd res) = None" using N by simp
    with pg show False by simp
  qed
  then have isne: "?is \<noteq> []" by simp
  have lst: "agents ?s2 ! last ?is = last (agents ?s2)"
    using ne by (simp add: last_conv_nth)
  from N isne lst have pgn: "pgn = ?n (last (agents ?s2))"
    using pg by (simp only: if_False) simp
  from N have tot: "fst (snd res) = fold (\<lambda>a t. fadd t (?n a)) (agents ?s2) (Fin 0)"
    using fold_positions [of "\<lambda>a t. fadd t (?n a)" "agents ?s2" "Fin 0"] by simp
  have "res = (s', fst (snd res), snd (snd res))" using s' by simp
  then have "joint_steps B cfg ?is (?s2, Fin 0, None) =
               Inr (s', fold (\<lambda>a t. fadd t (?n a)) (agents ?s2) (Fin 0), Some (?n (last (agents ?s2))))"
    using run tot pg pgn by simp
  then show ?thesis using ne d pgn by simp
qed









section \<open>Agent rotation\<close>






section \<open>The two gates\<close>

lemma ppo_update_warmup:
  assumes "global_steps < warmup_steps cfg"
      and "select_agent cfg global_steps = Inr agent_to_train"
      and "cp_batch_size_of cfg (length (rollout_observations smp)) = Inr cp_batch_size"
  shows "ppo_update B cfg s smp global_steps =
           (let cu = update_critic B cfg s smp (cal_token_mask cfg (action_tokens smp))
                       (length (rollout_observations smp)) cp_batch_size
            in Inr (fst cu, (fst (snd cu), snd (snd cu), Fin 0, Fin 0, Fin 0, Fin 0)))"
  using assms by (simp add: ppo_update_def Let_def)

text \<open>
  C5. Before the warmup is over, \<^verbatim>\<open>ppo_update\<close> does the whole critic update (the value loss
  accumulated over the chunks, the gradient norm, the step of the critic optimizer) and
  returns \<open>(value_loss, critic_grad_norm, 0, 0, 0, 0)\<close>. The agents and the policy
  optimizers are as before, and the result does not depend on the policy forward pass,
  on \<^verbatim>\<open>log_softmax\<close>, \<^verbatim>\<open>gather\<close>, the entropy or the policy backward pass: none of them is
  run. The two premises on \<open>select_agent\<close> and \<open>cp_batch_size_of\<close> say that the
  configuration does not make the integer divisions of lines 90 and 106 raise.
\<close>

theorem warmup_gate:
  fixes B :: "('obs, 'w, 'g, 'o) backend" and s :: "('w, 'g, 'o) trainer" and smp :: "'obs sample"
  defines "B' f1 f2 f3 f4 f5 \<equiv> B\<lparr>get_token_logits := f1, log_softmax := f2, gather := f3,
                                  entropy_of := f4, policy_backward := f5\<rparr>"
  assumes warm: "global_steps < warmup_steps cfg"
      and sel: "select_agent cfg global_steps = Inr agent_to_train"
      and cp: "cp_batch_size_of cfg (length (rollout_observations smp)) = Inr cp_batch_size"
  defines "cu \<equiv> update_critic B cfg s smp (cal_token_mask cfg (action_tokens smp))
                   (length (rollout_observations smp)) cp_batch_size"
  shows "ppo_update B cfg s smp global_steps =
           Inr (fst cu, (fst (snd cu), snd (snd cu), Fin 0, Fin 0, Fin 0, Fin 0))
         \<and> critic_optimizer (fst cu) =
             fst (opt_step B (critic_optimizer s) (weights (critic s)) (grad (critic (fst cu))))
         \<and> weights (critic (fst cu)) =
             snd (opt_step B (critic_optimizer s) (weights (critic s)) (grad (critic (fst cu))))
         \<and> agents (fst cu) = agents s
         \<and> policy_optimizer (fst cu) = policy_optimizer s
         \<and> ppo_update (B' f1 f2 f3 f4 f5) cfg s smp global_steps = ppo_update B cfg s smp global_steps"
proof -
  note run = ppo_update_warmup [OF warm sel cp]
  have "ppo_update (B' f1 f2 f3 f4 f5) cfg s smp global_steps = ppo_update B cfg s smp global_steps"
    by (simp only: run B'_def update_critic_policy_free)
  moreover have "ppo_update B cfg s smp global_steps =
           Inr (fst cu, (fst (snd cu), snd (snd cu), Fin 0, Fin 0, Fin 0, Fin 0))"
    by (simp add: run cu_def Let_def)
  ultimately show ?thesis
    by (simp add: cu_def update_critic_frame update_critic_step [symmetric])
qed

theorem warmup_gate_witness:
  "0 < warmup_steps (example_config\<lparr>warmup_steps := 5\<rparr>)
   \<and> select_agent (example_config\<lparr>warmup_steps := 5\<rparr>) 0 = Inr None
   \<and> cp_batch_size_of (example_config\<lparr>warmup_steps := 5\<rparr>)
        (length (rollout_observations (example_sample 0))) = Inr 1
   \<and> ppo_update example_backend (example_config\<lparr>warmup_steps := 5\<rparr>) example_trainer
        (example_sample 0) 0 =
       Inr (example_trainer1, (Fin 1, Fin 1, Fin 0, Fin 0, Fin 0, Fin 0))
   \<and> critic_optimizer example_trainer1 = Suc 0
   \<and> agents example_trainer1 = agents example_trainer"
proof -
  let ?cfg = "example_config\<lparr>warmup_steps := 5\<rparr>"
  have h1: "0 < warmup_steps ?cfg" by simp
  have h2: "select_agent ?cfg 0 = Inr None"
    by (simp add: select_agent_def example_config_def)
  have h3: "cp_batch_size_of ?cfg (length (rollout_observations (example_sample 0))) = Inr 1"
    by (simp add: example_batch_size example_cp example_config_def)
  have cu: "update_critic example_backend ?cfg example_trainer (example_sample 0)
              (cal_token_mask ?cfg (action_tokens (example_sample 0)))
              (length (rollout_observations (example_sample 0))) 1 = (example_trainer1, Fin 1, Fin 1)"
    by (simp add: example_batch_size example_mask_eq example_update_critic example_config_def)
  have "critic_optimizer example_trainer1 = Suc 0" "agents example_trainer1 = agents example_trainer"
    by (simp_all add: example_trainer1_def)
  with h1 h2 h3 show ?thesis
    using warmup_gate [OF h1 h2 h3, of example_backend example_trainer] by (simp add: cu)
qed

text \<open>
  C1. From the end of the warmup on, when the approximate KL accumulated over the chunks
  with their weights exceeds \<open>1.7e-6\<close>, \<^verbatim>\<open>ppo_update\<close> returns the policy loss and the policy
  gradient norm as zero, together with the measured KL and entropy. No policy optimizer
  has stepped: the registry and the parameters of the agents are as before. The critic
  optimizer has stepped, and that step stays.
\<close>

theorem kl_gate_rejects:
  fixes B :: "('obs, 'w, 'g, 'o) backend" and s :: "('w, 'g, 'o) trainer" and smp :: "'obs sample"
  assumes warm: "warmup_steps cfg \<le> global_steps"
      and sel: "select_agent cfg global_steps = Inr agent_to_train"
      and cp: "cp_batch_size_of cfg (length (rollout_observations smp)) = Inr cp_batch_size"
  defines "cu \<equiv> update_critic B cfg s smp (cal_token_mask cfg (action_tokens smp))
                   (length (rollout_observations smp)) cp_batch_size"
  defines "pa \<equiv> policy_accumulate B cfg (fst cu) agent_to_train smp
                   (normalize_advantages (advantages smp))
                   (cal_token_mask cfg (action_tokens smp))
                   (length (rollout_observations smp)) cp_batch_size"
  assumes kl: "fgt (fst (snd pa)) (Fin (17 / 10 ^ 7))"
  shows "ppo_update B cfg s smp global_steps =
           Inr (fst pa, (fst (snd cu), snd (snd cu), Fin 0, Fin 0, fst (snd pa), fst (snd (snd pa))))
         \<and> policy_optimizer (fst pa) = policy_optimizer s
         \<and> map weights (agents (fst pa)) = map weights (agents s)
         \<and> critic (fst pa) = critic (fst cu)
         \<and> critic_optimizer (fst pa) =
             fst (opt_step B (critic_optimizer s) (weights (critic s)) (grad (critic (fst cu))))
         \<and> weights (critic (fst pa)) =
             snd (opt_step B (critic_optimizer s) (weights (critic s)) (grad (critic (fst cu))))"
proof -
  have "ppo_update B cfg s smp global_steps =
          policy_commit B cfg agent_to_train (fst (snd cu)) (snd (snd cu)) pa"
    using warm sel cp by (simp add: ppo_update_def Let_def cu_def pa_def)
  also have "\<dots> = Inr (fst pa, (fst (snd cu), snd (snd cu), Fin 0, Fin 0, fst (snd pa), fst (snd (snd pa))))"
    using kl by (simp add: policy_commit_def Let_def)
  finally have run: "ppo_update B cfg s smp global_steps =
      Inr (fst pa, (fst (snd cu), snd (snd cu), Fin 0, Fin 0, fst (snd pa), fst (snd (snd pa))))" .
  have "policy_optimizer (fst pa) = policy_optimizer s"
    by (simp add: pa_def policy_accumulate_frame cu_def update_critic_frame)
  moreover have "map weights (agents (fst pa)) = map weights (agents s)"
    by (simp add: pa_def policy_accumulate_weights cu_def update_critic_frame)
  moreover have "critic (fst pa) = critic (fst cu)" "critic_optimizer (fst pa) = critic_optimizer (fst cu)"
    by (simp_all add: pa_def policy_accumulate_frame)
  ultimately show ?thesis
    using run by (simp add: cu_def update_critic_step [symmetric])
qed

theorem kl_gate_rejects_witness:
  "warmup_steps example_config \<le> 0
   \<and> select_agent example_config 0 = Inr None
   \<and> cp_batch_size_of example_config (length (rollout_observations (example_sample 1))) = Inr 1
   \<and> (\<exists>s' kl ent.
         ppo_update example_backend example_config example_trainer (example_sample 1) 0 =
           Inr (s', (Fin 1, Fin 1, Fin 0, Fin 0, kl, ent))
         \<and> fgt kl (Fin (17 / 10 ^ 7))
         \<and> policy_optimizer s' = policy_optimizer example_trainer
         \<and> map weights (agents s') = map weights (agents example_trainer)
         \<and> critic_optimizer s' = Suc 0)"
proof -
  let ?cfg = example_config
  have h1: "warmup_steps ?cfg \<le> 0" by (simp add: example_config_def)
  have h2: "select_agent ?cfg 0 = Inr None"
    by (simp add: select_agent_def example_config_def)
  have h3: "cp_batch_size_of ?cfg (length (rollout_observations (example_sample 1))) = Inr 1"
    by (simp add: example_batch_size example_cp example_config_def)
  have pad: "pad_token ?cfg = 0" by (simp add: example_config_def)
  note eqs = example_mask_eq [OF pad] example_batch_size example_advantages_eq
  have cu: "update_critic example_backend ?cfg example_trainer (example_sample 1) example_mask 2 1 =
              (example_trainer1, Fin 1, Fin 1)"
    by (rule example_update_critic) (simp_all add: example_config_def)
  let ?pa = "policy_accumulate example_backend ?cfg example_trainer1 None (example_sample 1)
               example_advantages example_mask 2 1"
  have "fst (snd ?pa) = Fin ((2 * exp 1 - 4) / 4 + (exp 1 - 2) / 2)"
    by (rule example_policy_accumulate_1) (simp_all add: example_config_def)
  then have kl: "fgt (fst (snd ?pa)) (Fin (17 / 10 ^ 7))"
    using example_kl_bound by simp
  have kl': "fgt (fst (snd (policy_accumulate example_backend ?cfg
                 (fst (update_critic example_backend ?cfg example_trainer (example_sample 1)
                    (cal_token_mask ?cfg (action_tokens (example_sample 1)))
                    (length (rollout_observations (example_sample 1))) 1))
                 None (example_sample 1) (normalize_advantages (advantages (example_sample 1)))
                 (cal_token_mask ?cfg (action_tokens (example_sample 1)))
                 (length (rollout_observations (example_sample 1))) 1))) (Fin (17 / 10 ^ 7))"
    using kl by (simp only: eqs cu fst_conv)
  note R = kl_gate_rejects [OF h1 h2 h3 kl', unfolded eqs cu fst_conv snd_conv]
  have co: "critic_optimizer (fst ?pa) = Suc 0"
    by (simp add: policy_accumulate_frame example_trainer1_def)
  show ?thesis
  proof (intro conjI)
    show "\<exists>s' kl ent.
         ppo_update example_backend example_config example_trainer (example_sample 1) 0 =
           Inr (s', (Fin 1, Fin 1, Fin 0, Fin 0, kl, ent))
         \<and> fgt kl (Fin (17 / 10 ^ 7))
         \<and> policy_optimizer s' = policy_optimizer example_trainer
         \<and> map weights (agents s') = map weights (agents example_trainer)
         \<and> critic_optimizer s' = Suc 0"
      using R kl co by blast
  qed (rule h1 h2 h3)+
qed


section \<open>The gradient norm that the joint update reports\<close>

text \<open>
  C9. When all agents are updated (\<^verbatim>\<open>agent_to_train\<close> is \<^verbatim>\<open>None\<close>) and the accumulated
  approximate KL does not exceed the threshold, the \<^verbatim>\<open>policy_grad_norm\<close> that \<^verbatim>\<open>ppo_update\<close>
  returns is the gradient norm of the last agent of \<^verbatim>\<open>mas.agents\<close>, measured on the gradient
  that the chunks accumulated on it. The loop has summed the norms of all agents in
  \<^verbatim>\<open>total_policy_grad_norm\<close>, and that sum is not among the values returned. A return
  implies that there is at least one agent.
\<close>

theorem joint_returns_last_norm:
  fixes B :: "('obs, 'w, 'g, 'o) backend" and s :: "('w, 'g, 'o) trainer" and smp :: "'obs sample"
  assumes joint: "agent_iteration_interval cfg \<le> 0"
      and warm: "warmup_steps cfg \<le> global_steps"
      and cp: "cp_batch_size_of cfg (length (rollout_observations smp)) = Inr cp_batch_size"
  defines "cu \<equiv> update_critic B cfg s smp (cal_token_mask cfg (action_tokens smp))
                   (length (rollout_observations smp)) cp_batch_size"
  defines "pa \<equiv> policy_accumulate B cfg (fst cu) None smp
                   (normalize_advantages (advantages smp))
                   (cal_token_mask cfg (action_tokens smp))
                   (length (rollout_observations smp)) cp_batch_size"
  assumes gate: "\<not> fgt (fst (snd pa)) (Fin (17 / 10 ^ 7))"
      and ret: "ppo_update B cfg s smp global_steps =
                  Inr (s', value_loss, critic_grad_norm, policy_loss, policy_grad_norm,
                       approx_kl, entropy)"
  shows "agents (fst pa) \<noteq> []
         \<and> policy_grad_norm =
             snd (clip_grad_norm B (grad (last (agents (fst pa)))) (max_grad_norm cfg))
         \<and> joint_steps B cfg [0 ..< length (agents (fst pa))] (fst pa, Fin 0, None) =
             Inr (s', fold (\<lambda>a total_policy_grad_norm.
                              fadd total_policy_grad_norm
                                (snd (clip_grad_norm B (grad a) (max_grad_norm cfg))))
                        (agents (fst pa)) (Fin 0),
                  Some policy_grad_norm)"
proof -
  have sel: "select_agent cfg global_steps = Inr None"
    using joint by (simp add: select_agent_def)
  have "policy_commit B cfg None (fst (snd cu)) (snd (snd cu)) pa =
          Inr (s', value_loss, critic_grad_norm, policy_loss, policy_grad_norm, approx_kl, entropy)"
    using ppo_update_commit [OF warm sel cp, of B s] ret by (simp add: cu_def pa_def Let_def)
  from policy_commit_joint_result [OF this gate] show ?thesis by simp
qed

theorem joint_returns_last_norm_witness:
  "agent_iteration_interval example_config \<le> 0
   \<and> warmup_steps example_config \<le> 0
   \<and> cp_batch_size_of example_config (length (rollout_observations (example_sample 0))) = Inr 1
   \<and> ppo_update example_backend example_config example_trainer (example_sample 0) 0 =
        Inr (example_trainer2, Fin 1, Fin 1, Fin (100000000 / 100000001), Fin 3, Fin 0,
             Fin (2 * (ln 2 * exp (- ln 2))))
   \<and> snd (clip_grad_norm example_backend (grad (last (agents example_accumulated)))
             (max_grad_norm example_config)) = Fin 3
   \<and> joint_steps example_backend example_config [0 ..< length (agents example_accumulated)]
        (example_accumulated, Fin 0, None) = Inr (example_trainer2, Fin 6, Some (Fin 3))"
proof -
  let ?cfg = example_config
  have h1: "agent_iteration_interval ?cfg \<le> 0" by (simp add: example_config_def)
  have h2: "warmup_steps ?cfg \<le> 0" by (simp add: example_config_def)
  have h3: "cp_batch_size_of ?cfg (length (rollout_observations (example_sample 0))) = Inr 1"
    by (simp add: example_batch_size example_cp example_config_def)
  have sel: "select_agent ?cfg 0 = Inr None" by (simp add: select_agent_def example_config_def)
  have pad: "pad_token ?cfg = 0" by (simp add: example_config_def)
  note eqs = example_mask_eq [OF pad] example_batch_size example_advantages_eq
  have cu: "update_critic example_backend ?cfg example_trainer (example_sample 0) example_mask 2 1 =
              (example_trainer1, Fin 1, Fin 1)"
    by (rule example_update_critic) (simp_all add: example_config_def)
  have pa: "policy_accumulate example_backend ?cfg example_trainer1 None (example_sample 0)
              example_advantages example_mask 2 1 =
            (example_accumulated, Fin 0, Fin (2 * (ln 2 * exp (- ln 2))), Fin (100000000 / 100000001))"
    by (rule example_policy_accumulate_0) (simp_all add: example_config_def)
  have pc: "policy_commit example_backend ?cfg None (Fin 1) (Fin 1)
              (example_accumulated, Fin 0, Fin (2 * (ln 2 * exp (- ln 2))), Fin (100000000 / 100000001)) =
            Inr (example_trainer2, Fin 1, Fin 1, Fin (100000000 / 100000001), Fin 3, Fin 0,
                 Fin (2 * (ln 2 * exp (- ln 2))))"
    by (rule example_policy_commit_0) (simp add: example_config_def)
  have ret: "ppo_update example_backend ?cfg example_trainer (example_sample 0) 0 =
               Inr (example_trainer2, Fin 1, Fin 1, Fin (100000000 / 100000001), Fin 3, Fin 0,
                    Fin (2 * (ln 2 * exp (- ln 2))))"
    unfolding ppo_update_commit [OF h2 sel h3] eqs Let_def cu fst_conv snd_conv pa by (rule pc)
  have gate: "\<not> fgt (fst (snd (policy_accumulate example_backend ?cfg
                 (fst (update_critic example_backend ?cfg example_trainer (example_sample 0)
                    (cal_token_mask ?cfg (action_tokens (example_sample 0)))
                    (length (rollout_observations (example_sample 0))) 1))
                 None (example_sample 0) (normalize_advantages (advantages (example_sample 0)))
                 (cal_token_mask ?cfg (action_tokens (example_sample 0)))
                 (length (rollout_observations (example_sample 0))) 1))) (Fin (17 / 10 ^ 7))"
    unfolding eqs cu fst_conv pa snd_conv by simp
  note R = joint_returns_last_norm [OF h1 h2 h3 gate ret, unfolded eqs cu fst_conv pa snd_conv]
  have F: "fold (\<lambda>a total_policy_grad_norm.
                   fadd total_policy_grad_norm
                     (snd (clip_grad_norm example_backend (grad a) (max_grad_norm example_config))))
             (agents example_accumulated) (Fin 0) = Fin 6"
    by (simp add: ex_defs)
  from R have "snd (clip_grad_norm example_backend (grad (last (agents example_accumulated)))
             (max_grad_norm example_config)) = Fin 3"
    and "joint_steps example_backend example_config [0 ..< length (agents example_accumulated)]
        (example_accumulated, Fin 0, None) = Inr (example_trainer2, Fin 6, Some (Fin 3))"
    unfolding F by simp_all
  with h1 h2 h3 ret show ?thesis by blast
qed


section \<open>The policy loss against its specification\<close>

lemma map2_same: "map2 f (map g xs) (map h xs) = map (\<lambda>x. f (g x) (h x)) xs"
  by (induction xs) simp_all

lemma tmap2_same: "tmap2 f (tmap g X) (tmap h X) = tmap (\<lambda>x. f (g x) (h x)) X"
  by (simp add: tmap2_def tmap_def map2_same)

lemma tmap_tmap: "tmap f (tmap g X) = tmap (\<lambda>x. f (g x)) X"
  by (simp add: tmap_def comp_def)

lemma flat_tmap: "flat (tmap f X) = map f (flat X)"
  by (simp add: flat_def tmap_def map_concat comp_def)

lemma fsum_Fin: "fsum (map (\<lambda>x. Fin (f x)) xs) = Fin (sum_list (map f xs))"
  by (induction xs) (simp_all add: fsum_def)

lemma masked_mean_Fin:
  "masked_mean (tmap (\<lambda>x. Fin (f x)) X) (tmap m X) =
     (if sum_list (map m (flat X)) = 0 then NaN
      else Fin (sum_list (map (\<lambda>x. f x * of_int (m x)) (flat X)) / of_int (sum_list (map m (flat X)))))"
  by (simp add: masked_mean_def tmask_def tmap2_same tsum_def isum_def flat_tmap fsum_Fin)

text \<open>
  C8. On five tensors of one shape with finite entries, whose mask does not sum to zero,
  \<^verbatim>\<open>cal_policy_loss\<close> returns the masked means \<open>sum(value * mask) / sum(mask)\<close> of the loss,
  of the approximate KL and of the entropy, in that order, where per token
  \<open>r = exp(log_prob_infer - log_prob_old)\<close>, the approximate KL is \<open>(r - 1) - log r\<close> and the
  loss is \<open>max(-clip(r, 1 - \<epsilon>, 1 + \<epsilon>) * A, -r * A) - entropy_coef * entropy\<close>. The tensor \<open>X\<close>
  holds for every token position what the five tensors hold there, so that they are any
  five tensors of one shape.
\<close>

theorem cal_policy_loss_formulas:
  fixes X :: "'a tensor" and lpi lpo adv ent :: "'a \<Rightarrow> real" and msk :: "'a \<Rightarrow> int"
  defines "r \<equiv> \<lambda>x. spec_ratio (lpi x) (lpo x)"
  assumes mask: "sum_list (map msk (flat X)) \<noteq> 0"
  shows "cal_policy_loss cfg (tmap (\<lambda>x. Fin (lpi x)) X) (tmap (\<lambda>x. Fin (lpo x)) X)
           (tmap (\<lambda>x. Fin (adv x)) X) (tmap (\<lambda>x. Fin (ent x)) X) (tmap msk X) =
         (Fin (spec_masked_mean (map (\<lambda>x. spec_token_loss cfg (r x) (adv x) (ent x)) (flat X))
                 (map msk (flat X))),
          Fin (spec_masked_mean (map (\<lambda>x. spec_token_kl (r x)) (flat X)) (map msk (flat X))),
          Fin (spec_masked_mean (map ent (flat X)) (map msk (flat X))))"
proof -
  have clip: "min (max z (1 - clip_param cfg)) (1 + clip_param cfg) =
              spec_clip z (1 - clip_param cfg) (1 + clip_param cfg)" for z
    by (simp add: spec_clip_def)
  have mm: "masked_mean (tmap (\<lambda>x. Fin (f x)) X) (tmap msk X) =
            Fin (spec_masked_mean (map f (flat X)) (map msk (flat X)))" for f
    using mask by (simp add: masked_mean_Fin spec_masked_mean_def map2_same)
  have loss: "tmap2 fsub
                (tmap2 fmax
                   (tmap2 fmul
                      (tmap (\<lambda>w. fneg (fclamp w (1 - clip_param cfg) (1 + clip_param cfg)))
                         (tmap fexp (tmap2 fsub (tmap (\<lambda>x. Fin (lpi x)) X) (tmap (\<lambda>x. Fin (lpo x)) X))))
                      (tmap (\<lambda>x. Fin (adv x)) X))
                   (tmap2 fmul
                      (tmap fneg (tmap fexp (tmap2 fsub (tmap (\<lambda>x. Fin (lpi x)) X) (tmap (\<lambda>x. Fin (lpo x)) X))))
                      (tmap (\<lambda>x. Fin (adv x)) X)))
                (tmap (\<lambda>e. fmul (Fin (entropy_coef cfg)) e) (tmap (\<lambda>x. Fin (ent x)) X)) =
              tmap (\<lambda>x. Fin (spec_token_loss cfg (r x) (adv x) (ent x))) X"
    by (simp add: tmap2_same tmap_tmap clip spec_token_loss_def r_def spec_ratio_def)
  have kl: "tmap2 fsub
              (tmap (\<lambda>w. fsub w (Fin 1))
                 (tmap fexp (tmap2 fsub (tmap (\<lambda>x. Fin (lpi x)) X) (tmap (\<lambda>x. Fin (lpo x)) X))))
              (tmap2 fsub (tmap (\<lambda>x. Fin (lpi x)) X) (tmap (\<lambda>x. Fin (lpo x)) X)) =
            tmap (\<lambda>x. Fin (spec_token_kl (r x))) X"
    by (simp add: tmap2_same tmap_tmap spec_token_kl_def r_def spec_ratio_def)
  show ?thesis
    unfolding cal_policy_loss_def Let_def loss kl mm ..
qed

theorem cal_policy_loss_formulas_witness:
  "sum_list (map (\<lambda>(a, b, c, d, m). m) (flat ([[[(0, 0, 1, 0, 1)], [(0, 0, 2, 0, 0)]]]
                     :: (real \<times> real \<times> real \<times> real \<times> int) tensor))) \<noteq> 0
   \<and> cal_policy_loss example_config [[[Fin 0], [Fin 0]]] [[[Fin 0], [Fin 0]]] [[[Fin 1], [Fin 2]]]
        [[[Fin 0], [Fin 0]]] [[[1], [0]]] = (Fin (- 1), Fin 0, Fin 0)"
proof -
  let ?X = "[[[(0, 0, 1, 0, 1)], [(0, 0, 2, 0, 0)]]] :: (real \<times> real \<times> real \<times> real \<times> int) tensor"
  have m: "sum_list (map (\<lambda>(a, b, c, d, m). m) (flat ?X)) \<noteq> 0" by (simp add: flat_def)
  from cal_policy_loss_formulas [of "\<lambda>(a, b, c, d, m). m" ?X example_config
         "\<lambda>(a, b, c, d, m). a" "\<lambda>(a, b, c, d, m). b" "\<lambda>(a, b, c, d, m). c" "\<lambda>(a, b, c, d, m). d",
         OF m]
  have "cal_policy_loss example_config [[[Fin 0], [Fin 0]]] [[[Fin 0], [Fin 0]]] [[[Fin 1], [Fin 2]]]
        [[[Fin 0], [Fin 0]]] [[[1], [0]]] = (Fin (- 1), Fin 0, Fin 0)"
    by (simp add: tmap_def flat_def spec_masked_mean_def spec_token_loss_def spec_token_kl_def
          spec_ratio_def spec_clip_def example_config_def)
  with m show ?thesis by (intro conjI)
qed


section \<open>Advantage normalization\<close>

lemma finite_entries_nonzero:
  "finite_entries (map (\<lambda>a. if a = 0 then NaN else Fin a) xs) = filter (\<lambda>a. a \<noteq> 0) xs"
  by (induction xs) (simp_all add: finite_entries_def)

lemma tmap_shape: "map (map length) (tmap f X) = map (map length) X"
  by (simp add: tmap_def comp_def)

text \<open>
  C3. The normalization of \<^verbatim>\<open>ppo_update\<close> takes the mean and the standard deviation over
  the entries that are not \<open>0.0\<close> and maps every entry \<open>a\<close>, the zero ones too, to
  \<open>(a - mean) / (std + 1e-8)\<close>. On finite advantages with an entry that is not zero every
  normalized value is a number: that is so when two distinct non-zero entries exist.
  Without any non-zero entry every normalized value is \<open>NaN\<close>. The normalized array has the
  length and the shape of the input.
\<close>

theorem advantage_normalization:
  fixes A :: "real tensor"
  defines "nz \<equiv> filter (\<lambda>a. a \<noteq> 0) (flat A)"
  shows "(nz \<noteq> [] \<longrightarrow>
            normalize_advantages (tmap Fin A) =
              tmap (\<lambda>a. Fin ((a - spec_mean nz) / (spec_std nz + 1 / 10 ^ 8))) A)
         \<and> (nz = [] \<longrightarrow> normalize_advantages (tmap Fin A) = tmap (\<lambda>a. NaN) A)
         \<and> length (normalize_advantages advs) = length advs
         \<and> map (map length) (normalize_advantages advs) = map (map length) advs"
proof -
  have fe: "finite_entries (flat (tmap (\<lambda>a. if a = Fin 0 then NaN else a) (tmap Fin A))) = nz"
    by (simp add: tmap_tmap flat_tmap finite_entries_nonzero nz_def)
  have pos: "spec_std nz + 1 / 10 ^ 8 \<noteq> 0"
  proof -
    have "0 \<le> sum_list (map (\<lambda>y. (y - spec_mean nz)\<^sup>2) nz)"
      by (rule sum_list_nonneg) auto
    then have "0 \<le> spec_std nz" by (simp add: spec_std_def)
    then show ?thesis by simp
  qed
  have one: "nz \<noteq> [] \<Longrightarrow> normalize_advantages (tmap Fin A) =
              tmap (\<lambda>a. Fin ((a - spec_mean nz) / (spec_std nz + 1 / 10 ^ 8))) A"
    using pos unfolding normalize_advantages_def Let_def nanmean_def nanstd_def fe
    by (simp add: tmap_tmap spec_mean_def spec_std_def)
  have none: "nz = [] \<Longrightarrow> normalize_advantages (tmap Fin A) = tmap (\<lambda>a. NaN) A"
    unfolding normalize_advantages_def Let_def nanmean_def nanstd_def fe
    by (simp add: tmap_tmap)
  have shape: "map (map length) (normalize_advantages advs) = map (map length) advs"
    by (simp add: normalize_advantages_def Let_def tmap_shape)
  have len: "length (normalize_advantages advs) = length advs"
    by (simp add: normalize_advantages_def Let_def tmap_def)
  from one none shape len show ?thesis by blast
qed

theorem advantage_normalization_witness:
  "filter (\<lambda>a. a \<noteq> 0) (flat [[[1], [3]], [[0], [0 :: real]]]) \<noteq> []
   \<and> normalize_advantages [[[Fin 1], [Fin 3]], [[Fin 0], [Fin 0]]] =
       [[[Fin (- (100000000 / 100000001))], [Fin (100000000 / 100000001)]],
        [[Fin (- (200000000 / 100000001))], [Fin (- (200000000 / 100000001))]]]
   \<and> filter (\<lambda>a. a \<noteq> 0) (flat [[[0 :: real]]]) = []
   \<and> normalize_advantages [[[Fin 0]]] = [[[NaN]]]"
proof -
  let ?A = "[[[1], [3]], [[0], [0]]] :: real tensor"
  let ?Z = "[[[0]]] :: real tensor"
  have a: "filter (\<lambda>a. a \<noteq> 0) (flat ?A) \<noteq> []" by (simp add: flat_def)
  have z: "filter (\<lambda>a. a \<noteq> 0) (flat ?Z) = []" by (simp add: flat_def)
  from advantage_normalization [of ?A, THEN conjunct1, THEN mp, OF a]
  have 1: "normalize_advantages [[[Fin 1], [Fin 3]], [[Fin 0], [Fin 0]]] =
       [[[Fin (- (100000000 / 100000001))], [Fin (100000000 / 100000001)]],
        [[Fin (- (200000000 / 100000001))], [Fin (- (200000000 / 100000001))]]]"
    by (simp add: tmap_def flat_def spec_mean_def spec_std_def)
  from advantage_normalization [of ?Z, THEN conjunct2, THEN conjunct1, THEN mp, OF z]
  have 2: "normalize_advantages [[[Fin 0]]] = [[[NaN]]]"
    by (simp add: tmap_def)
  show ?thesis by (intro conjI) (rule a 1 z 2)+
qed


section \<open>Gradient clipping on the policy path\<close>

lemma policy_commit_flag:
  "policy_commit B (cfg\<lparr>use_max_grad_norm := b\<rparr>) agent_to_train value_loss critic_grad_norm pa =
   policy_commit B cfg agent_to_train value_loss critic_grad_norm pa"
proof -
  have c: "clip_agent B (cfg\<lparr>use_max_grad_norm := b\<rparr>) = clip_agent B cfg"
    by (intro ext) (simp add: clip_agent_def)
  have j: "joint_steps B (cfg\<lparr>use_max_grad_norm := b\<rparr>) is acc = joint_steps B cfg is acc" for "is" acc
    by (induction "is" arbitrary: acc) (simp_all add: c Let_def split: sum.splits)
  show ?thesis unfolding policy_commit_def c j by (rule refl)
qed

text \<open>
  C7. Past the KL gate the policy path calls \<^verbatim>\<open>clip_grad_norm_\<close> on every updated agent
  whatever \<^verbatim>\<open>_use_max_grad_norm\<close> says: the flag has no effect on \<open>policy_commit\<close>. On the
  small instance with the flag off, the critic path measures the norm \<open>1\<close> of its gradient
  and leaves the gradient, although the norm exceeds \<^verbatim>\<open>max_grad_norm\<close>; the policy path
  scales the gradient \<open>3\<close> of each agent down to the bound and steps from the scaled
  gradient.
\<close>

theorem policy_clip_ignores_flag:
  "policy_commit B (cfg\<lparr>use_max_grad_norm := False\<rparr>) agent_to_train value_loss critic_grad_norm pa =
     policy_commit B (cfg\<lparr>use_max_grad_norm := True\<rparr>) agent_to_train value_loss critic_grad_norm pa
   \<and> \<not> use_max_grad_norm (example_config\<lparr>use_max_grad_norm := False\<rparr>)
   \<and> ppo_update example_backend (example_config\<lparr>use_max_grad_norm := False\<rparr>) example_trainer
        (example_sample 0) 0 =
       Inr (example_trainer2\<lparr>critic := \<lparr>weights = Fin 1, grad = Fin (- 1)\<rparr>\<rparr>,
            Fin 1, Fin 1, Fin (100000000 / 100000001), Fin 3, Fin 0, Fin (2 * (ln 2 * exp (- ln 2))))
   \<and> map grad (agents (fst (policy_accumulate example_backend (example_config\<lparr>use_max_grad_norm := False\<rparr>)
          (example_trainer\<lparr>critic := \<lparr>weights = Fin 1, grad = Fin (- 1)\<rparr>, critic_optimizer := Suc 0\<rparr>)
          None (example_sample 0) example_advantages example_mask 2 1))) = [Fin 3, Fin 3]
   \<and> map grad (agents example_trainer2) = [Fin (1500000 / 3000001), Fin (1500000 / 3000001)]
   \<and> map weights (agents example_trainer2) = [Fin (- (1500000 / 3000001)), Fin (- (1500000 / 3000001))]"
proof -
  let ?cfg = "example_config\<lparr>use_max_grad_norm := False\<rparr>"
  have g: "policy_commit B (cfg\<lparr>use_max_grad_norm := False\<rparr>) agent_to_train value_loss critic_grad_norm pa =
     policy_commit B (cfg\<lparr>use_max_grad_norm := True\<rparr>) agent_to_train value_loss critic_grad_norm pa"
    by (simp only: policy_commit_flag)
  have f: "\<not> use_max_grad_norm ?cfg" by simp
  have h2: "warmup_steps ?cfg \<le> 0" by (simp add: example_config_def)
  have h3: "cp_batch_size_of ?cfg (length (rollout_observations (example_sample 0))) = Inr 1"
    by (simp add: example_batch_size example_cp example_config_def)
  have sel: "select_agent ?cfg 0 = Inr None" by (simp add: select_agent_def example_config_def)
  have pad: "pad_token ?cfg = 0" by (simp add: example_config_def)
  note eqs = example_mask_eq [OF pad] example_batch_size example_advantages_eq
  have cu: "update_critic example_backend ?cfg example_trainer (example_sample 0) example_mask 2 1 =
           (example_trainer\<lparr>critic := \<lparr>weights = Fin 1, grad = Fin (- 1)\<rparr>,
                             critic_optimizer := Suc 0\<rparr>, Fin 1, Fin 1)"
    by (rule unclipped_update_critic) (simp_all add: example_config_def)
  have pa: "policy_accumulate example_backend ?cfg
           (example_trainer\<lparr>critic := \<lparr>weights = Fin 1, grad = Fin (- 1)\<rparr>,
                             critic_optimizer := Suc 0\<rparr>)
           None (example_sample 0) example_advantages example_mask 2 1 =
         (example_trainer
            \<lparr>agents := [\<lparr>weights = Fin 0, grad = Fin 3, role = ''planner''\<rparr>,
                        \<lparr>weights = Fin 0, grad = Fin 3, role = ''solver''\<rparr>],
             critic := \<lparr>weights = Fin 1, grad = Fin (- 1)\<rparr>,
             critic_optimizer := Suc 0\<rparr>,
          Fin 0, Fin (2 * (ln 2 * exp (- ln 2))), Fin (100000000 / 100000001))"
    by (rule unclipped_policy_accumulate) (simp_all add: example_config_def)
  have pc: "policy_commit example_backend ?cfg None (Fin 1) (Fin 1)
           (example_trainer
            \<lparr>agents := [\<lparr>weights = Fin 0, grad = Fin 3, role = ''planner''\<rparr>,
                        \<lparr>weights = Fin 0, grad = Fin 3, role = ''solver''\<rparr>],
             critic := \<lparr>weights = Fin 1, grad = Fin (- 1)\<rparr>,
             critic_optimizer := Suc 0\<rparr>,
          Fin 0, Fin (2 * (ln 2 * exp (- ln 2))), Fin (100000000 / 100000001)) =
         Inr (example_trainer2\<lparr>critic := \<lparr>weights = Fin 1, grad = Fin (- 1)\<rparr>\<rparr>,
              Fin 1, Fin 1, Fin (100000000 / 100000001), Fin 3, Fin 0, Fin (2 * (ln 2 * exp (- ln 2))))"
    by (rule unclipped_policy_commit) (simp add: example_config_def)
  have ret: "ppo_update example_backend ?cfg example_trainer (example_sample 0) 0 =
       Inr (example_trainer2\<lparr>critic := \<lparr>weights = Fin 1, grad = Fin (- 1)\<rparr>\<rparr>,
            Fin 1, Fin 1, Fin (100000000 / 100000001), Fin 3, Fin 0, Fin (2 * (ln 2 * exp (- ln 2))))"
    unfolding ppo_update_commit [OF h2 sel h3] eqs Let_def cu fst_conv snd_conv pa by (rule pc)
  have acc: "map grad (agents (fst (policy_accumulate example_backend ?cfg
          (example_trainer\<lparr>critic := \<lparr>weights = Fin 1, grad = Fin (- 1)\<rparr>, critic_optimizer := Suc 0\<rparr>)
          None (example_sample 0) example_advantages example_mask 2 1))) = [Fin 3, Fin 3]"
    unfolding pa by simp
  have fin: "map grad (agents example_trainer2) = [Fin (1500000 / 3000001), Fin (1500000 / 3000001)]"
    "map weights (agents example_trainer2) = [Fin (- (1500000 / 3000001)), Fin (- (1500000 / 3000001))]"
    by (simp_all add: example_trainer2_def)
  show ?thesis by (intro conjI) (rule g f ret acc fin)+
qed


section \<open>A token mask that sums to zero\<close>


















section \<open>The epoch driver without updates\<close>

lemma train_epochs_empty:
  "\<forall>e \<in> set es. buffer e = [] \<Longrightarrow> train_epochs B cfg g buffer es acc = Inr acc"
  by (induction es) simp_all

text \<open>
  C10. When no epoch yields a minibatch, because \<^verbatim>\<open>ppo_epoch\<close> is not positive or because
  the buffer yields none in any epoch, \<^verbatim>\<open>train\<close> returns no diagnostics: \<^verbatim>\<open>update_time\<close> is
  still zero at the final division, which raises \<^verbatim>\<open>ZeroDivisionError\<close>.
\<close>

theorem train_no_updates:
  "ppo_epoch cfg \<le> 0 \<or> (\<forall>e < nat (ppo_epoch cfg). buffer e = []) \<Longrightarrow>
   train B cfg s buffer global_steps = Inl ZeroDivisionError"
proof -
  assume "ppo_epoch cfg \<le> 0 \<or> (\<forall>e < nat (ppo_epoch cfg). buffer e = [])"
  then have "\<forall>e \<in> set [0 ..< nat (ppo_epoch cfg)]. buffer e = []" by auto
  then have "train_epochs B cfg global_steps buffer [0 ..< nat (ppo_epoch cfg)] (s, initial_train_info, 0)
             = Inr (s, initial_train_info, 0)"
    by (rule train_epochs_empty)
  then show ?thesis by (simp add: train_def)
qed

theorem train_no_updates_witness:
  "ppo_epoch example_config = 1 \<and>
   train example_backend example_config example_trainer (\<lambda>e. []) 0 = Inl ZeroDivisionError \<and>
   ppo_epoch (example_config\<lparr>ppo_epoch := 0\<rparr>) \<le> 0 \<and>
   train example_backend (example_config\<lparr>ppo_epoch := 0\<rparr>) example_trainer
     (\<lambda>e. [example_sample 0]) 0 = Inl ZeroDivisionError"
  using train_no_updates [of example_config "\<lambda>e. []" example_backend example_trainer 0]
        train_no_updates [of "example_config\<lparr>ppo_epoch := 0\<rparr>" "\<lambda>e. [example_sample 0]"
                             example_backend example_trainer 0]
  by (simp add: example_config_def)


end
